theory Spec2Isabelle
  imports Main
begin

section \<open>JavaScript values and option objects\<close>

text \<open>
  The constructor of \<^verbatim>\<open>AriaDriver\<close> receives a plain object. Its documented properties are
  \<^verbatim>\<open>url\<close> (a string) and \<^verbatim>\<open>patience\<close> (a number of milliseconds), so the values a property
  can hold are \<^verbatim>\<open>undefined\<close>, a number and a string. Millisecond counts are integral here;
  fractional and non-finite numbers are left out.
\<close>

datatype jsval = Undefined | Number int | String string

type_synonym object = "string \<rightharpoonup> jsval"

text \<open>
  \<^verbatim>\<open>const defaults = { url: undefined, patience: 1000 };\<close>
\<close>

definition defaults :: object where
  "defaults = [''url'' \<mapsto> Undefined, ''patience'' \<mapsto> Number 1000]"

text \<open>
  \<^verbatim>\<open>Object.assign(target, ...sources)\<close> copies the own properties of every source into the
  target, later sources overwriting earlier ones; a source that is \<^verbatim>\<open>undefined\<close> (here
  \<open>None\<close>) is skipped. A property that is present with the value \<^verbatim>\<open>undefined\<close> is copied
  like any other.
\<close>

fun Object_assign :: "object \<Rightarrow> object option list \<Rightarrow> object" where
  "Object_assign target [] = target"
| "Object_assign target (None # sources) = Object_assign target sources"
| "Object_assign target (Some source # sources) = Object_assign (target ++ source) sources"

text \<open>Reading a property, \<^verbatim>\<open>obj.name\<close>: a property that is not there reads as \<^verbatim>\<open>undefined\<close>.\<close>

definition property :: "object \<Rightarrow> string \<Rightarrow> jsval" where
  "property obj name = (case obj name of None \<Rightarrow> Undefined | Some v \<Rightarrow> v)"

section \<open>The remote page and the WebDriver session\<close>

text \<open>
  An element reference is an opaque handle to a node of the page. The page answers the
  four things the driver asks of it: which elements match a CSS selector (in document
  order), the value of an attribute (\<open>None\<close> is JavaScript's \<^verbatim>\<open>null\<close>), whether calling
  \<^verbatim>\<open>focus()\<close> on an element moves the focus there, and which element is
  \<^verbatim>\<open>document.activeElement\<close>.
\<close>

type_synonym WebElement = nat

record page =
  matching :: "string \<Rightarrow> WebElement list"
  attribute :: "WebElement \<Rightarrow> string \<Rightarrow> string option"
  focusable :: "WebElement \<Rightarrow> bool"
  activeElement :: "WebElement option"

datatype Key = ENTER

text \<open>The commands the driver sends to the WebDriver server.\<close>

datatype command =
    GetSession
  | Get string
  | FindElements string
  | GetAttribute WebElement string
  | ExecuteScript WebElement
  | SendKeys WebElement Key
  | Quit

text \<open>
  \<^verbatim>\<open>new Builder().forBrowser(b).usingServer(u).build()\<close> yields a session of browser \<open>b\<close>
  on the server at \<open>u\<close>. The session's identifier and the document it shows belong to
  the remote end and are given from outside.
\<close>

record WebDriver =
  browser :: string
  server :: jsval
  session :: string
  document :: page

definition build :: "string \<Rightarrow> jsval \<Rightarrow> string \<Rightarrow> page \<Rightarrow> WebDriver" where
  "build b u sid pg = \<lparr>browser = b, server = u, session = sid, document = pg\<rparr>"

section \<open>Errors, warnings and the driver\<close>

text \<open>
  \<^verbatim>\<open>new AriaDriverError(code, args, message, link)\<close>: the four constructor arguments as
  they are passed. An argument that is left out or \<^verbatim>\<open>null\<close> is \<open>None\<close>.
\<close>

record AriaDriverError =
  code :: string
  args :: "string list option"
  message :: "string option"
  link :: "string option"

definition AriaDriverError2 :: "string \<Rightarrow> string list \<Rightarrow> AriaDriverError" where
  "AriaDriverError2 c a = \<lparr>code = c, args = Some a, message = None, link = None\<rparr>"

text \<open>
  What the driver does that can be seen from outside, in the order it does it: a
  command sent to the server, or an event handed to the listeners of the emitter
  (\<^verbatim>\<open>this.emit(name, payload)\<close>).
\<close>

datatype event = Issued command | Emitted string AriaDriverError

text \<open>
  The driver object: the fields \<^verbatim>\<open>_patience\<close> and \<^verbatim>\<open>_driver\<close> of the source (an Isabelle
  name cannot start with an underscore, so the underscore is written \<open>u_\<close>), and the
  trace of what it has done so far.
\<close>

record AriaDriver =
  u_patience :: jsval
  u_driver :: WebDriver
  trace :: "event list"

text \<open>
  \<^verbatim>\<open>
  constructor(options) {
    super();
    options = Object.assign({}, defaults, options);
    this._patience = options.patience;
    this._driver = new Builder().forBrowser('firefox').usingServer(options.url).build();
  }
  \<close>
\<close>

definition constructor :: "object option \<Rightarrow> string \<Rightarrow> page \<Rightarrow> AriaDriver" where
  "constructor options sid pg =
     (let options = Object_assign Map.empty [Some defaults, options]
      in \<lparr>u_patience = property options ''patience'',
          u_driver = build ''firefox'' (property options ''url'') sid pg,
          trace = []\<rparr>)"

text \<open>\<^verbatim>\<open>get patience() { return this._patience; }\<close>\<close>

definition patience :: "AriaDriver \<Rightarrow> jsval" where
  "patience d = u_patience d"

section \<open>JavaScript's \<^verbatim>\<open>parseInt(string, 10)\<close>\<close>

text \<open>
  ECMAScript's \<^verbatim>\<open>parseInt\<close> with radix 10: the argument is converted to a string
  (\<^verbatim>\<open>null\<close> becomes the string \<^verbatim>\<open>null\<close>), leading white space is dropped, one sign is
  read, and the longest run of decimal digits that follows is the number; what comes
  after the digits is ignored. With no digit the result is \<^verbatim>\<open>NaN\<close>, here \<open>None\<close>.
  A \<open>char\<close> is one code unit below 256, so the white space of ECMAScript beyond
  U+00A0 does not occur.
\<close>

definition StrWhiteSpaceChar :: "char \<Rightarrow> bool" where
  "StrWhiteSpaceChar c =
     (c \<in> set [CHR 0x09, CHR 0x0A, CHR 0x0B, CHR 0x0C, CHR 0x0D, CHR 0x20, CHR 0xA0])"

definition digit :: "char \<Rightarrow> bool" where
  "digit c = (48 \<le> (of_char c :: nat) \<and> (of_char c :: nat) \<le> 57)"

definition mathInt :: "string \<Rightarrow> int" where
  "mathInt Z = foldl (\<lambda>n c. 10 * n + (of_char c - 48)) 0 Z"

definition ToString :: "string option \<Rightarrow> string" where
  "ToString v = (case v of None \<Rightarrow> ''null'' | Some s \<Rightarrow> s)"

definition parseInt10 :: "string option \<Rightarrow> int option" where
  "parseInt10 v =
     (let S = dropWhile StrWhiteSpaceChar (ToString v);
          sign = (if S \<noteq> [] \<and> hd S = CHR ''-'' then - 1 else 1);
          S = (if S \<noteq> [] \<and> (hd S = CHR ''+'' \<or> hd S = CHR ''-'') then tl S else S);
          Z = takeWhile digit S
      in if Z = [] then None else Some (sign * mathInt Z))"

text \<open>The comparison \<^verbatim>\<open>x > 0\<close> on a number that may be \<^verbatim>\<open>NaN\<close>: false for \<^verbatim>\<open>NaN\<close>.\<close>

definition greater0 :: "int option \<Rightarrow> bool" where
  "greater0 x = (case x of None \<Rightarrow> False | Some n \<Rightarrow> 0 < n)"

section \<open>The primitives of selenium-webdriver and of the emitter\<close>

definition issue :: "command \<Rightarrow> AriaDriver \<Rightarrow> AriaDriver" where
  "issue c d = d\<lparr>trace := trace d @ [Issued c]\<rparr>"

text \<open>
  \<^verbatim>\<open>this.emit(name, payload)\<close> hands the payload to the listeners and returns; the
  listeners are taken not to throw, so it does not change what the caller does next.
\<close>

definition emit :: "string \<Rightarrow> AriaDriverError \<Rightarrow> AriaDriver \<Rightarrow> AriaDriver" where
  "emit name payload d = d\<lparr>trace := trace d @ [Emitted name payload]\<rparr>"

text \<open>\<^verbatim>\<open>this._driver.findElements(By.css(selector))\<close>\<close>

definition findElements :: "string \<Rightarrow> AriaDriver \<Rightarrow> WebElement list \<times> AriaDriver" where
  "findElements selector d =
     (matching (document (u_driver d)) selector, issue (FindElements selector) d)"

text \<open>\<^verbatim>\<open>element.getAttribute(name)\<close>\<close>

definition getAttribute :: "WebElement \<Rightarrow> string \<Rightarrow> AriaDriver \<Rightarrow> string option \<times> AriaDriver" where
  "getAttribute element name d =
     (attribute (document (u_driver d)) element name, issue (GetAttribute element name) d)"

text \<open>
  The one script the driver runs in the page, with the target as its argument:
  \<^verbatim>\<open>
  function() {
    arguments[0].focus();
    return document.activeElement === arguments[0];
  }
  \<close>
  \<^verbatim>\<open>focus()\<close> on an element that cannot take the focus leaves the active element as it
  was.
\<close>

definition executeScript :: "WebElement \<Rightarrow> AriaDriver \<Rightarrow> bool \<times> AriaDriver" where
  "executeScript target d =
     (let pg = document (u_driver d);
          pg = (if focusable pg target then pg\<lparr>activeElement := Some target\<rparr> else pg)
      in (activeElement pg = Some target,
          (issue (ExecuteScript target) d)\<lparr>u_driver := (u_driver d)\<lparr>document := pg\<rparr>\<rparr>))"

text \<open>
  \<^verbatim>\<open>element.sendKeys(key)\<close>. What the page's own handlers do with the key is not part
  of the driver and is not followed here.
\<close>

definition sendKeys :: "WebElement \<Rightarrow> Key \<Rightarrow> AriaDriver \<Rightarrow> AriaDriver" where
  "sendKeys element k d = issue (SendKeys element k) d"

section \<open>The methods of \<^verbatim>\<open>AriaDriver\<close>\<close>

text \<open>
  An \<^verbatim>\<open>async\<close> method either returns a value or rejects with an error; in both cases
  the driver is left in the state reached so far. The session is taken to be live and
  the server to answer every command.
\<close>

text \<open>
  \<^verbatim>\<open>
  async getSessionId() {
    const session = await this._driver.getSession();
    return session.getId();
  }
  \<close>
\<close>

definition getSessionId :: "AriaDriver \<Rightarrow> string \<times> AriaDriver" where
  "getSessionId d = (session (u_driver d), issue GetSession d)"

text \<open>
  \<^verbatim>\<open>get(url) { return this._driver.get(url); }\<close> The document found at the address is
  given from outside.
\<close>

definition get :: "string \<Rightarrow> page \<Rightarrow> AriaDriver \<Rightarrow> AriaDriver" where
  "get url loaded d = (issue (Get url) d)\<lparr>u_driver := (u_driver d)\<lparr>document := loaded\<rparr>\<rparr>"

text \<open>
  \<^verbatim>\<open>
  async count(selector) {
    return (await this._driver.findElements(By.css(selector))).length;
  }
  \<close>
\<close>

definition count :: "string \<Rightarrow> AriaDriver \<Rightarrow> nat \<times> AriaDriver" where
  "count selector d = (let (els, d) = findElements selector d in (length els, d))"

text \<open>
  \<^verbatim>\<open>
  async _findOne(selector) {
    const targets = await this._driver.findElements(By.css(selector));
    if (targets.length === 0) {
      throw new AriaDriverError('ARIADRIVER-ELEMENT-NOT-FOUND', [selector]);
    }
    if (targets.length > 1) {
      this.emit('warning', new AriaDriverError('ARIADRIVER-AMBIGUOUS-REFERENCE', [selector]));
    }
    const tabIndex = await targets[0].getAttribute('tabindex');
    if (parseInt(tabIndex, 10) > 0) {
      this.emit('warning', new AriaDriverError(
        'ARIADRIVER-POOR-SEMANTICS',
        null,
        `The tabindex property is set to ${tabIndex}, but it should not exceed 0.`,
        'https://www.w3.org/TR/wai-aria-practices-1.1/#kbd_general_between'
      ));
    }
    return targets[0];
  }
  \<close>
\<close>

definition POOR_SEMANTICS :: "string option \<Rightarrow> AriaDriverError" where
  "POOR_SEMANTICS tabIndex =
     \<lparr>code = ''ARIADRIVER-POOR-SEMANTICS'',
      args = None,
      message = Some (''The tabindex property is set to '' @ ToString tabIndex
                      @ '', but it should not exceed 0.''),
      link = Some ''https://www.w3.org/TR/wai-aria-practices-1.1/#kbd_general_between''\<rparr>"

definition u_findOne :: "string \<Rightarrow> AriaDriver \<Rightarrow> (AriaDriverError + WebElement) \<times> AriaDriver" where
  "u_findOne selector d =
     (let (targets, d) = findElements selector d
      in if length targets = 0
         then (Inl (AriaDriverError2 ''ARIADRIVER-ELEMENT-NOT-FOUND'' [selector]), d)
         else
           let d = (if length targets > 1
                    then emit ''warning''
                           (AriaDriverError2 ''ARIADRIVER-AMBIGUOUS-REFERENCE'' [selector]) d
                    else d);
               (tabIndex, d) = getAttribute (targets ! 0) ''tabindex'' d;
               d = (if greater0 (parseInt10 tabIndex)
                    then emit ''warning'' (POOR_SEMANTICS tabIndex) d
                    else d)
           in (Inr (targets ! 0), d))"

text \<open>
  \<^verbatim>\<open>
  async _use(selector, target) {
    if (await target.getAttribute('aria-hidden') === 'true') {
      throw new AriaDriverError('ARIADRIVER-ELEMENT-UNFOCUSABLE', [selector]);
    }
    const accepted = await this._driver.executeScript(function() { ... }, target);
    if (!accepted) {
      throw new AriaDriverError('ARIADRIVER-ELEMENT-UNFOCUSABLE', [selector]);
    }
    await target.sendKeys(Key.ENTER);
  }
  \<close>
\<close>

definition u_use :: "string \<Rightarrow> WebElement \<Rightarrow> AriaDriver \<Rightarrow> (AriaDriverError + unit) \<times> AriaDriver" where
  "u_use selector target d =
     (let (hidden, d) = getAttribute target ''aria-hidden'' d
      in if hidden = Some ''true''
         then (Inl (AriaDriverError2 ''ARIADRIVER-ELEMENT-UNFOCUSABLE'' [selector]), d)
         else
           let (accepted, d) = executeScript target d
           in if \<not> accepted
              then (Inl (AriaDriverError2 ''ARIADRIVER-ELEMENT-UNFOCUSABLE'' [selector]), d)
              else (Inr (), sendKeys target ENTER d))"

text \<open>
  \<^verbatim>\<open>
  async use(selector) {
    await this._use(selector, await this._findOne(selector));
  }
  \<close>
  The argument \<^verbatim>\<open>await this._findOne(selector)\<close> is evaluated first; when it rejects,
  \<^verbatim>\<open>_use\<close> is never called.
\<close>

definition use :: "string \<Rightarrow> AriaDriver \<Rightarrow> (AriaDriverError + unit) \<times> AriaDriver" where
  "use selector d =
     (case u_findOne selector d of
        (Inl err, d) \<Rightarrow> (Inl err, d)
      | (Inr target, d) \<Rightarrow> u_use selector target d)"

text \<open>\<^verbatim>\<open>quit() { return this._driver.quit(); }\<close>\<close>

definition quit :: "AriaDriver \<Rightarrow> AriaDriver" where
  "quit d = issue Quit d"

text \<open>
  Every method of the class, as a call with its arguments, and the driver it leaves
  behind.
\<close>

datatype operation =
    CallPatience
  | CallGetSessionId
  | CallGet string page
  | CallCount string
  | CallFindOne string
  | CallUse string
  | CallUse2 string WebElement
  | CallQuit

fun call :: "AriaDriver \<Rightarrow> operation \<Rightarrow> AriaDriver" where
  "call d CallPatience = d"
| "call d CallGetSessionId = snd (getSessionId d)"
| "call d (CallGet url loaded) = get url loaded d"
| "call d (CallCount selector) = snd (count selector d)"
| "call d (CallFindOne selector) = snd (u_findOne selector d)"
| "call d (CallUse selector) = snd (use selector d)"
| "call d (CallUse2 selector target) = snd (u_use selector target d)"
| "call d CallQuit = quit d"

section \<open>The popup widget\<close>

text \<open>
  The methods mixed into the class from \<^verbatim>\<open>lib/widgets/popup.js\<close> are not among the
  sources; \<^verbatim>\<open>test/tests/popup.js\<close> calls \<^verbatim>\<open>openPopup\<close> and names the error codes
  \<^verbatim>\<open>ARIADRIVER-INVALID-MARKUP\<close> and \<^verbatim>\<open>ARIADRIVER-TIMEOUT\<close> and the selector of an open
  container. The definitions of this section follow the specification.
\<close>

text \<open>
  Modelled from the spec: the Widget Descriptor of \<^verbatim>\<open>lib/widgets/popup.js\<close>, which is
  missing. The markup rule is the required attribute and its accepted tokens; the
  success predicate is evaluated against the remote page, given the number of open
  containers counted before activation.
\<close>

record WidgetDescriptor =
  markupRule :: "string \<times> string list"
  container :: string
  successPredicate :: "nat \<Rightarrow> nat \<Rightarrow> bool"

text \<open>
  Modelled from the spec: the descriptor of the popup kind, missing with
  \<^verbatim>\<open>lib/widgets/popup.js\<close>. The specification does not name the attribute or its tokens;
  they are the \<^verbatim>\<open>aria-haspopup\<close> values that the titles of the valid tests list, and
  the selector is the one the test counts open containers with. Success is "exactly
  one additional element matching the selector has appeared since activation".
\<close>

definition popup :: WidgetDescriptor where
  \<open>popup =
     \<lparr>markupRule = (''aria-haspopup'',
                    [''true'', ''menu'', ''listbox'', ''tree'', ''grid'', ''dialog'']),
      container = ''[role]:not([aria-hidden="true"])'',
      successPredicate = (\<lambda>baseline now. now = baseline + 1)\<rparr>\<close>

definition INVALID_MARKUP :: "string \<Rightarrow> string \<Rightarrow> AriaDriverError" where
  "INVALID_MARKUP selector reason =
     AriaDriverError2 ''ARIADRIVER-INVALID-MARKUP'' [selector, reason]"

text \<open>
  Modelled from the spec: the Widget Markup Validator (section 4.4), missing with
  \<^verbatim>\<open>lib/widgets/popup.js\<close>. The attribute must be present and equal to an accepted
  token; absent, explicitly negative (the literal \<^verbatim>\<open>false\<close>) and unrecognized are the
  three failures, and the reason says which. It reads the attribute and nothing else.
\<close>

definition validate ::
  "WidgetDescriptor \<Rightarrow> string \<Rightarrow> WebElement \<Rightarrow> AriaDriver
     \<Rightarrow> (AriaDriverError + unit) \<times> AriaDriver" where
  "validate kind selector element d =
     (let (found, d) = getAttribute element (fst (markupRule kind)) d
      in case found of
           None \<Rightarrow> (Inl (INVALID_MARKUP selector ''absent''), d)
         | Some token \<Rightarrow>
             if token = ''false'' then (Inl (INVALID_MARKUP selector ''negative''), d)
             else if token \<in> set (snd (markupRule kind)) then (Inr (), d)
             else (Inl (INVALID_MARKUP selector ''unrecognized''), d))"

text \<open>
  Modelled from the spec: the Patience Poller (section 4.3), missing with the widget
  sources. The predicate is evaluated against the remote state now, then again every
  sampling interval ("tens of milliseconds"), until it holds or the elapsed time
  exceeds the patience. The remote page changes by itself while the driver waits:
  \<open>remote t\<close> is the document \<open>t\<close> milliseconds after the poller started.
\<close>

datatype outcome = success | timeout

definition samplingInterval :: nat where
  "samplingInterval = 10"

definition observe :: "page \<Rightarrow> AriaDriver \<Rightarrow> AriaDriver" where
  "observe pg d = d\<lparr>u_driver := (u_driver d)\<lparr>document := pg\<rparr>\<rparr>"

function poll_from ::
  "(AriaDriver \<Rightarrow> bool \<times> AriaDriver) \<Rightarrow> nat \<Rightarrow> (nat \<Rightarrow> page) \<Rightarrow> nat \<Rightarrow> AriaDriver
     \<Rightarrow> outcome \<times> AriaDriver" where
  "poll_from predicate patienceMs remote elapsed d =
     (let r = predicate (observe (remote elapsed) d)
      in if fst r then (success, snd r)
         else if patienceMs < elapsed then (timeout, snd r)
         else poll_from predicate patienceMs remote (elapsed + samplingInterval) (snd r))"
  by pat_completeness auto
termination
  by (relation "measure (\<lambda>(predicate, patienceMs, remote, elapsed, d). Suc patienceMs - elapsed)")
     (auto simp add: samplingInterval_def)

declare poll_from.simps [simp del]

definition poll ::
  "(AriaDriver \<Rightarrow> bool \<times> AriaDriver) \<Rightarrow> nat \<Rightarrow> (nat \<Rightarrow> page) \<Rightarrow> AriaDriver
     \<Rightarrow> outcome \<times> AriaDriver" where
  "poll predicate patienceMs remote d = poll_from predicate patienceMs remote 0 d"

text \<open>
  Modelled from the spec: the patience as the duration of a bounded wait, "a
  non-negative duration in milliseconds". A value that is not a number, or is below
  0, leaves no time to wait.
\<close>

definition patienceMs :: "AriaDriver \<Rightarrow> nat" where
  "patienceMs d = (case patience d of Number n \<Rightarrow> nat n | _ \<Rightarrow> 0)"

text \<open>
  Modelled from the spec: the Widget Interaction Protocol (section 4.5), missing with
  \<^verbatim>\<open>lib/widgets/popup.js\<close>. VALIDATING runs the validator on the resolved trigger;
  ACTIVATING runs the Selector Resolver, then the Focus Transfer Verifier (that is
  \<open>use\<close>); AWAITING_STATE runs the poller with the kind's success predicate. Each
  failure ends the operation with its error. The open containers are counted between
  validation and activation, since the predicate compares with the time before
  activation.
\<close>

definition interact ::
  "WidgetDescriptor \<Rightarrow> string \<Rightarrow> (nat \<Rightarrow> page) \<Rightarrow> AriaDriver
     \<Rightarrow> (AriaDriverError + unit) \<times> AriaDriver" where
  "interact kind selector remote d =
     (case u_findOne selector d of
        (Inl err, d) \<Rightarrow> (Inl err, d)
      | (Inr trigger, d) \<Rightarrow>
          (case validate kind selector trigger d of
             (Inl err, d) \<Rightarrow> (Inl err, d)
           | (Inr _, d) \<Rightarrow>
               let (baseline, d) = count (container kind) d
               in (case use selector d of
                     (Inl err, d) \<Rightarrow> (Inl err, d)
                   | (Inr _, d) \<Rightarrow>
                       (case poll (\<lambda>d. let (now, d) = count (container kind) d
                                        in (successPredicate kind baseline now, d))
                                  (patienceMs d) remote d of
                          (success, d) \<Rightarrow> (Inr (), d)
                        | (timeout, d) \<Rightarrow>
                            (Inl (AriaDriverError2 ''ARIADRIVER-TIMEOUT'' [selector]), d)))))"

text \<open>Modelled from the spec: \<^verbatim>\<open>openPopup(selector)\<close>, the protocol for the popup kind.\<close>

definition openPopup ::
  "string \<Rightarrow> (nat \<Rightarrow> page) \<Rightarrow> AriaDriver \<Rightarrow> (AriaDriverError + unit) \<times> AriaDriver" where
  "openPopup selector remote d = interact popup selector remote d"

section \<open>Observing a run\<close>

text \<open>The events between a state of the driver and a later one.\<close>

definition during :: "AriaDriver \<Rightarrow> AriaDriver \<Rightarrow> event list" where
  "during d d' = drop (length (trace d)) (trace d')"

text \<open>
  What a listener subscribed to \<^verbatim>\<open>warning\<close> receives, as the tests collect it with
  \<^verbatim>\<open>ariadriver.on('warning', ...)\<close>, and the commands among the events.
\<close>

fun warnings :: "event list \<Rightarrow> AriaDriverError list" where
  "warnings [] = []"
| "warnings (Issued c # es) = warnings es"
| "warnings (Emitted name payload # es) =
     (if name = ''warning'' then payload # warnings es else warnings es)"

fun commands :: "event list \<Rightarrow> command list" where
  "commands [] = []"
| "commands (Issued c # es) = c # commands es"
| "commands (Emitted name payload # es) = commands es"

section \<open>A page to run the driver on\<close>

text \<open>
  Three buttons (11, 12, 13), of which \<^verbatim>\<open>#ok\<close> is the first; a hidden element 14 with
  \<^verbatim>\<open>tabindex="2"\<close>; an element 15 with \<^verbatim>\<open>tabindex="1"\<close>; a \<^verbatim>\<open>div\<close> 16 that cannot take
  the focus; a popup trigger 17 with \<^verbatim>\<open>aria-haspopup="menu"\<close> and a trigger 18 with
  \<^verbatim>\<open>aria-haspopup="false"\<close>. Nothing has the focus.
\<close>

definition fixture :: page where
  "fixture =
     \<lparr>matching = (\<lambda>selector.
          if selector = ''button'' then [11, 12, 13]
          else if selector = ''#ok'' then [11]
          else if selector = ''#hidden'' then [14]
          else if selector = ''#tab'' then [15]
          else if selector = ''#div'' then [16]
          else if selector = ''#menu'' then [17]
          else if selector = ''#false'' then [18]
          else []),
      attribute = (\<lambda>element name.
          if element = 14 \<and> name = ''aria-hidden'' then Some ''true''
          else if element = 14 \<and> name = ''tabindex'' then Some ''2''
          else if element = 15 \<and> name = ''tabindex'' then Some ''1''
          else if element = 17 \<and> name = ''aria-haspopup'' then Some ''menu''
          else if element = 18 \<and> name = ''aria-haspopup'' then Some ''false''
          else None),
      focusable = (\<lambda>element. element \<noteq> 16),
      activeElement = None\<rparr>"

text \<open>The same page, on which a menu (element 19) is open from 20 ms on.\<close>

definition menuOpens :: "nat \<Rightarrow> page" where
  "menuOpens t =
     (if t < 20 then fixture
      else fixture\<lparr>matching := (\<lambda>selector.
             if selector = container popup then [19] else matching fixture selector)\<rparr>)"

definition driver0 :: AriaDriver where
  "driver0 = constructor None ''session'' fixture"

section \<open>What the primitives and the methods do, step by step\<close>



lemma during_append: "trace d' = trace d @ new \<Longrightarrow> during d d' = new"
  by (simp add: during_def)

lemma u_findOne_empty:
  assumes "matching (document (u_driver d)) selector = []"
  shows "u_findOne selector d =
           (Inl (AriaDriverError2 ''ARIADRIVER-ELEMENT-NOT-FOUND'' [selector]),
            d\<lparr>trace := trace d @ [Issued (FindElements selector)]\<rparr>)"
  using assms by (simp add: u_findOne_def findElements_def issue_def)

lemma u_findOne_found:
  assumes "matching (document (u_driver d)) selector = t # ts"
  shows "u_findOne selector d =
           (Inr t,
            d\<lparr>trace := trace d
                 @ [Issued (FindElements selector)]
                 @ (if ts = [] then []
                    else [Emitted ''warning''
                            (AriaDriverError2 ''ARIADRIVER-AMBIGUOUS-REFERENCE'' [selector])])
                 @ [Issued (GetAttribute t ''tabindex'')]
                 @ (if greater0 (parseInt10 (attribute (document (u_driver d)) t ''tabindex''))
                    then [Emitted ''warning''
                            (POOR_SEMANTICS (attribute (document (u_driver d)) t ''tabindex''))]
                    else [])\<rparr>)"
  using assms
  by (simp add: u_findOne_def findElements_def getAttribute_def issue_def emit_def)

lemma u_use_hidden:
  assumes "attribute (document (u_driver d)) target ''aria-hidden'' = Some ''true''"
  shows "u_use selector target d =
           (Inl (AriaDriverError2 ''ARIADRIVER-ELEMENT-UNFOCUSABLE'' [selector]),
            d\<lparr>trace := trace d @ [Issued (GetAttribute target ''aria-hidden'')]\<rparr>)"
  using assms by (simp add: u_use_def getAttribute_def issue_def)

lemma u_use_rejected:
  assumes "attribute (document (u_driver d)) target ''aria-hidden'' \<noteq> Some ''true''"
    and "\<not> focusable (document (u_driver d)) target"
    and "activeElement (document (u_driver d)) \<noteq> Some target"
  shows "u_use selector target d =
           (Inl (AriaDriverError2 ''ARIADRIVER-ELEMENT-UNFOCUSABLE'' [selector]),
            d\<lparr>trace := trace d @ [Issued (GetAttribute target ''aria-hidden''),
                                   Issued (ExecuteScript target)]\<rparr>)"
  using assms
  by (simp add: u_use_def getAttribute_def executeScript_def issue_def)

lemma u_use_accepted:
  assumes "attribute (document (u_driver d)) target ''aria-hidden'' \<noteq> Some ''true''"
    and "focusable (document (u_driver d)) target
         \<or> activeElement (document (u_driver d)) = Some target"
  shows "u_use selector target d =
           (Inr (),
            d\<lparr>trace := trace d @ [Issued (GetAttribute target ''aria-hidden''),
                                   Issued (ExecuteScript target),
                                   Issued (SendKeys target ENTER)],
              u_driver := (u_driver d)\<lparr>document :=
                            (document (u_driver d))\<lparr>activeElement := Some target\<rparr>\<rparr>\<rparr>)"
proof -
  let ?pg = "document (u_driver d)"
  have same: "activeElement ?pg = Some target \<Longrightarrow> ?pg\<lparr>activeElement := Some target\<rparr> = ?pg"
    by simp
  show ?thesis
  proof (cases "focusable ?pg target")
    case True
    with assms(1) show ?thesis
      by (simp add: u_use_def getAttribute_def executeScript_def issue_def sendKeys_def Let_def)
  next
    case False
    with assms(2) have "activeElement ?pg = Some target" by simp
    with assms(1) False same show ?thesis
      by (simp add: u_use_def getAttribute_def executeScript_def issue_def sendKeys_def Let_def)
  qed
qed


lemma warnings_append: "warnings (xs @ ys) = warnings xs @ warnings ys"
  by (induction xs rule: warnings.induct) simp_all

lemma commands_append: "commands (xs @ ys) = commands xs @ commands ys"
  by (induction xs rule: commands.induct) simp_all

lemma warnings_Issued: "warnings (map Issued cs) = []"
  by (induction cs) simp_all

lemma code_AriaDriverError2: "code (AriaDriverError2 c a) = c"
  by (simp add: AriaDriverError2_def)

lemma code_POOR_SEMANTICS: "code (POOR_SEMANTICS v) = ''ARIADRIVER-POOR-SEMANTICS''"
  by (simp add: POOR_SEMANTICS_def)

lemma u_use_trace:
  "\<exists>cs. trace (snd (u_use selector target d)) = trace d @ map Issued cs"
proof -
  let ?pg = "document (u_driver d)"
  consider (hidden) "attribute ?pg target ''aria-hidden'' = Some ''true''"
    | (rejected) "attribute ?pg target ''aria-hidden'' \<noteq> Some ''true''"
        "\<not> focusable ?pg target" "activeElement ?pg \<noteq> Some target"
    | (accepted) "attribute ?pg target ''aria-hidden'' \<noteq> Some ''true''"
        "focusable ?pg target \<or> activeElement ?pg = Some target"
    by blast
  then show ?thesis
  proof cases
    case hidden
    have "trace (snd (u_use selector target d))
            = trace d @ map Issued [GetAttribute target ''aria-hidden'']"
      by (simp add: u_use_hidden [OF hidden])
    then show ?thesis by blast
  next
    case rejected
    have "trace (snd (u_use selector target d))
            = trace d @ map Issued [GetAttribute target ''aria-hidden'', ExecuteScript target]"
      by (simp add: u_use_rejected [OF rejected])
    then show ?thesis by blast
  next
    case accepted
    have "trace (snd (u_use selector target d))
            = trace d @ map Issued [GetAttribute target ''aria-hidden'', ExecuteScript target,
                                    SendKeys target ENTER]"
      by (simp add: u_use_accepted [OF accepted])
    then show ?thesis by blast
  qed
qed

lemma u_use_result:
  "fst (u_use selector target d) = Inr ()
   \<or> fst (u_use selector target d)
       = Inl (AriaDriverError2 ''ARIADRIVER-ELEMENT-UNFOCUSABLE'' [selector])"
proof -
  let ?pg = "document (u_driver d)"
  consider (hidden) "attribute ?pg target ''aria-hidden'' = Some ''true''"
    | (rejected) "attribute ?pg target ''aria-hidden'' \<noteq> Some ''true''"
        "\<not> focusable ?pg target" "activeElement ?pg \<noteq> Some target"
    | (accepted) "attribute ?pg target ''aria-hidden'' \<noteq> Some ''true''"
        "focusable ?pg target \<or> activeElement ?pg = Some target"
    by blast
  then show ?thesis
  proof cases
    case hidden
    show ?thesis by (simp add: u_use_hidden [OF hidden])
  next
    case rejected
    show ?thesis by (simp add: u_use_rejected [OF rejected])
  next
    case accepted
    show ?thesis by (simp add: u_use_accepted [OF accepted])
  qed
qed

lemma use_found:
  assumes "matching (document (u_driver d)) selector = t # ts"
  shows "use selector d = u_use selector t (snd (u_findOne selector d))"
  by (simp add: use_def u_findOne_found [OF assms])

lemma use_empty:
  assumes "matching (document (u_driver d)) selector = []"
  shows "use selector d =
           (Inl (AriaDriverError2 ''ARIADRIVER-ELEMENT-NOT-FOUND'' [selector]),
            d\<lparr>trace := trace d @ [Issued (FindElements selector)]\<rparr>)"
  by (simp add: use_def u_findOne_empty [OF assms])

lemma parseInt10_null: "parseInt10 None = None"
  by (simp add: parseInt10_def ToString_def StrWhiteSpaceChar_def digit_def)

lemma greater0_parseInt10_iff:
  "greater0 (parseInt10 v) \<longleftrightarrow> (\<exists>s n. v = Some s \<and> parseInt10 (Some s) = Some n \<and> 0 < n)"
proof (cases v)
  case None
  then show ?thesis by (simp add: parseInt10_null greater0_def)
next
  case (Some s)
  then show ?thesis by (cases "parseInt10 (Some s)") (simp_all add: greater0_def)
qed

lemma document_driver0: "document (u_driver driver0) = fixture"
  by (simp add: driver0_def constructor_def build_def)

lemma trace_driver0: "trace driver0 = []"
  by (simp add: driver0_def constructor_def)

lemma matching_fixture:
  "matching fixture ''button'' = [11, 12, 13]"
  "matching fixture ''#ok'' = [11]"
  "matching fixture ''#hidden'' = [14]"
  "matching fixture ''#tab'' = [15]"
  "matching fixture ''#div'' = [16]"
  "matching fixture ''#menu'' = [17]"
  "matching fixture ''#false'' = [18]"
  "matching fixture ''#none'' = []"
  by (simp_all add: fixture_def)

lemma attribute_fixture:
  "attribute fixture 11 name = None"
  "attribute fixture 14 ''aria-hidden'' = Some ''true''"
  "attribute fixture 14 ''tabindex'' = Some ''2''"
  "attribute fixture 15 ''tabindex'' = Some ''1''"
  "attribute fixture 15 ''aria-hidden'' = None"
  "attribute fixture 16 name = None"
  "attribute fixture 17 ''aria-haspopup'' = Some ''menu''"
  "attribute fixture 17 ''tabindex'' = None"
  "attribute fixture 17 ''aria-hidden'' = None"
  "attribute fixture 18 ''aria-haspopup'' = Some ''false''"
  "attribute fixture 18 ''tabindex'' = None"
  by (simp_all add: fixture_def)

lemma focus_fixture:
  "focusable fixture 11" "focusable fixture 14" "focusable fixture 15" "\<not> focusable fixture 16"
  "focusable fixture 17" "activeElement fixture = None"
  by (simp_all add: fixture_def)

lemma parseInt10_examples:
  "parseInt10 (Some ''2'') = Some 2"
  "parseInt10 (Some ''1'') = Some 1"
  "parseInt10 (Some ''0'') = Some 0"
  "parseInt10 (Some ''-1'') = Some (- 1)"
  "parseInt10 (Some '' +12px'') = Some 12"
  "parseInt10 (Some ''1.5'') = Some 1"
  "parseInt10 (Some ''abc'') = None"
  "parseInt10 (Some []) = None"
  by (simp_all add: parseInt10_def ToString_def StrWhiteSpaceChar_def digit_def mathInt_def)

lemma digit_value:
  assumes "digit c"
  shows "0 \<le> (of_char c :: int) - 48"
    and "((of_char c :: int) - 48 = 0) = (c = CHR ''0'')"
proof -
  have n: "48 \<le> (of_char c :: nat)" using assms by (simp add: digit_def)
  have i: "(of_char c :: int) = int (of_char c)" by (simp only: of_nat_of_char)
  show "0 \<le> (of_char c :: int) - 48" using n unfolding i by linarith
  have "((of_char c :: nat) = 48) = (c = CHR ''0'')"
  proof
    assume "(of_char c :: nat) = 48"
    moreover have "(of_char (CHR ''0'') :: nat) = 48" by simp
    ultimately have "(of_char c :: nat) = of_char (CHR ''0'')" by (simp only:)
    then show "c = CHR ''0''" by (simp only: of_char_eq_iff)
  next
    assume "c = CHR ''0''"
    then show "(of_char c :: nat) = 48" by simp
  qed
  then show "((of_char c :: int) - 48 = 0) = (c = CHR ''0'')"
    unfolding i by linarith
qed

lemma foldl_digits:
  assumes "\<forall>c \<in> set Z. digit c" and "0 \<le> n"
  shows "0 \<le> foldl (\<lambda>n c. 10 * n + (of_char c - 48)) (n::int) Z
       \<and> (0 < foldl (\<lambda>n c. 10 * n + (of_char c - 48)) n Z
            \<longleftrightarrow> 0 < n \<or> (\<exists>c \<in> set Z. c \<noteq> CHR ''0''))"
  using assms
proof (induction Z arbitrary: n)
  case Nil
  then show ?case by simp
next
  case (Cons c Z)
  from Cons.prems have d: "digit c" by simp
  note v = digit_value [OF d]
  from v(1) Cons.prems(2) have nn: "0 \<le> 10 * n + (of_char c - 48)" by linarith
  from Cons.prems(1) have rest: "\<forall>c \<in> set Z. digit c" by simp
  have step: "(0 < 10 * n + ((of_char c :: int) - 48)) = (0 < n \<or> c \<noteq> CHR ''0'')"
    using v Cons.prems(2) by (cases "c = CHR ''0''") auto
  from Cons.IH [OF rest nn] show ?case
    by (auto simp add: step)
qed

lemma mathInt_positive:
  "0 \<le> mathInt (takeWhile digit S)
   \<and> (0 < mathInt (takeWhile digit S) \<longleftrightarrow> (\<exists>c \<in> set (takeWhile digit S). c \<noteq> CHR ''0''))"
proof -
  have "\<forall>c \<in> set (takeWhile digit S). digit c"
    by (auto dest: set_takeWhileD)
  from foldl_digits [OF this, of 0] show ?thesis
    by (simp add: mathInt_def)
qed

lemma greater0_signed_digits:
  "greater0 (if takeWhile digit
                   (if S \<noteq> [] \<and> (hd S = CHR ''+'' \<or> hd S = CHR ''-'') then tl S else S) = []
             then None
             else Some ((if S \<noteq> [] \<and> hd S = CHR ''-'' then - 1 else 1)
                        * mathInt (takeWhile digit
                            (if S \<noteq> [] \<and> (hd S = CHR ''+'' \<or> hd S = CHR ''-'')
                             then tl S else S))))
     \<longleftrightarrow> (\<exists>c \<in> set (takeWhile digit
                         (case S of [] \<Rightarrow> [] | c # S' \<Rightarrow> if c = CHR ''+'' then S' else c # S')).
            c \<noteq> CHR ''0'')"
proof (cases S)
  case Nil
  then show ?thesis by (simp add: greater0_def)
next
  case (Cons c S')
  note m = mathInt_positive [of S'] mathInt_positive [of "c # S'"]
  show ?thesis
  proof (cases "c = CHR ''-''")
    case True
    with Cons m(1) show ?thesis
      by (auto simp add: greater0_def digit_def)
  next
    case False
    with Cons m show ?thesis
      by (cases "c = CHR ''+''") (auto simp add: greater0_def)
  qed
qed

text \<open>
  Which attribute values parse above 0: those that, after leading white space and an
  optional plus sign, begin with decimal digits that are not all \<^verbatim>\<open>0\<close>. So \<^verbatim>\<open>2px\<close> and
  \<^verbatim>\<open>1.5\<close> do, and \<^verbatim>\<open>0\<close>, \<^verbatim>\<open>-1\<close>, \<^verbatim>\<open>abc\<close> and the empty string do not.
\<close>

lemma greater0_parseInt10_digits:
  "greater0 (parseInt10 (Some s)) \<longleftrightarrow>
     (\<exists>c \<in> set (takeWhile digit
                  (case dropWhile StrWhiteSpaceChar s of
                     [] \<Rightarrow> []
                   | c # S \<Rightarrow> if c = CHR ''+'' then S else c # S)). c \<noteq> CHR ''0'')"
  using greater0_signed_digits [of "dropWhile StrWhiteSpaceChar s"]
  by (simp only: parseInt10_def ToString_def Let_def option.case)

text \<open>
  Claim C1. When a selector matches more than one element, the resolution call
  \<^verbatim>\<open>_findOne\<close> returns the first match in document order and raises nothing, and among
  the warnings of that call there is exactly one with the code
  \<^verbatim>\<open>ARIADRIVER-AMBIGUOUS-REFERENCE\<close>, carrying the selector, however many elements match.
  \<^verbatim>\<open>use\<close> resolves the same way: it goes on with \<^verbatim>\<open>_use\<close> on that first match, so that
  it succeeds or fails as the activation of that element does and never for the
  ambiguity, and the whole call emits exactly one such warning.
\<close>

theorem ambiguous_reference_first_match:
  assumes "1 < length (matching (document (u_driver d)) selector)"
  shows "fst (u_findOne selector d) = Inr (matching (document (u_driver d)) selector ! 0)
       \<and> [w \<leftarrow> warnings (during d (snd (u_findOne selector d))).
             code w = ''ARIADRIVER-AMBIGUOUS-REFERENCE'']
           = [AriaDriverError2 ''ARIADRIVER-AMBIGUOUS-REFERENCE'' [selector]]
       \<and> use selector d
           = u_use selector (matching (document (u_driver d)) selector ! 0)
               (snd (u_findOne selector d))
       \<and> (fst (use selector d) = Inr ()
          \<or> fst (use selector d)
              = Inl (AriaDriverError2 ''ARIADRIVER-ELEMENT-UNFOCUSABLE'' [selector]))
       \<and> [w \<leftarrow> warnings (during d (snd (use selector d))).
             code w = ''ARIADRIVER-AMBIGUOUS-REFERENCE'']
           = [AriaDriverError2 ''ARIADRIVER-AMBIGUOUS-REFERENCE'' [selector]]"
proof -
  from assms obtain t ts where m: "matching (document (u_driver d)) selector = t # ts"
    and ts: "ts \<noteq> []"
    by (cases "matching (document (u_driver d)) selector") auto
  let ?d1 = "snd (u_findOne selector d)"
  let ?new = "[Issued (FindElements selector),
               Emitted ''warning'' (AriaDriverError2 ''ARIADRIVER-AMBIGUOUS-REFERENCE'' [selector]),
               Issued (GetAttribute t ''tabindex'')]
              @ (if greater0 (parseInt10 (attribute (document (u_driver d)) t ''tabindex''))
                 then [Emitted ''warning''
                         (POOR_SEMANTICS (attribute (document (u_driver d)) t ''tabindex''))]
                 else [])"
  have r: "fst (u_findOne selector d) = Inr t"
    by (simp add: u_findOne_found [OF m])
  have tr: "trace ?d1 = trace d @ ?new"
    using ts by (simp add: u_findOne_found [OF m])
  have amb: "[w \<leftarrow> warnings ?new. code w = ''ARIADRIVER-AMBIGUOUS-REFERENCE'']
               = [AriaDriverError2 ''ARIADRIVER-AMBIGUOUS-REFERENCE'' [selector]]"
    by (simp add: code_AriaDriverError2 code_POOR_SEMANTICS)
  have one: "[w \<leftarrow> warnings (during d ?d1). code w = ''ARIADRIVER-AMBIGUOUS-REFERENCE'']
               = [AriaDriverError2 ''ARIADRIVER-AMBIGUOUS-REFERENCE'' [selector]]"
    using amb by (simp only: during_append [OF tr])
  have u: "use selector d = u_use selector t ?d1"
    by (rule use_found [OF m])
  obtain cs where "trace (snd (u_use selector t ?d1)) = trace ?d1 @ map Issued cs"
    using u_use_trace by blast
  then have "trace (snd (use selector d)) = trace d @ (?new @ map Issued cs)"
    by (simp only: u tr append_assoc)
  then have "during d (snd (use selector d)) = ?new @ map Issued cs"
    by (rule during_append)
  then have two: "[w \<leftarrow> warnings (during d (snd (use selector d))).
                     code w = ''ARIADRIVER-AMBIGUOUS-REFERENCE'']
                  = [AriaDriverError2 ''ARIADRIVER-AMBIGUOUS-REFERENCE'' [selector]]"
    using amb by (simp only: warnings_append warnings_Issued filter_append filter.simps append_Nil2)
  have res: "fst (use selector d) = Inr ()
             \<or> fst (use selector d)
                 = Inl (AriaDriverError2 ''ARIADRIVER-ELEMENT-UNFOCUSABLE'' [selector])"
    unfolding u by (rule u_use_result)
  have first: "matching (document (u_driver d)) selector ! 0 = t"
    by (simp add: m)
  show ?thesis
    unfolding first by (intro conjI r one u res two)
qed

theorem ambiguous_reference_first_match_witness:
  "1 < length (matching (document (u_driver driver0)) ''button'')
   \<and> fst (u_findOne ''button'' driver0) = Inr 11
   \<and> [w \<leftarrow> warnings (during driver0 (snd (u_findOne ''button'' driver0))).
         code w = ''ARIADRIVER-AMBIGUOUS-REFERENCE'']
       = [AriaDriverError2 ''ARIADRIVER-AMBIGUOUS-REFERENCE'' [''button'']]
   \<and> use ''button'' driver0 = u_use ''button'' 11 (snd (u_findOne ''button'' driver0))
   \<and> (fst (use ''button'' driver0) = Inr ()
      \<or> fst (use ''button'' driver0)
          = Inl (AriaDriverError2 ''ARIADRIVER-ELEMENT-UNFOCUSABLE'' [''button'']))
   \<and> [w \<leftarrow> warnings (during driver0 (snd (use ''button'' driver0))).
         code w = ''ARIADRIVER-AMBIGUOUS-REFERENCE'']
       = [AriaDriverError2 ''ARIADRIVER-AMBIGUOUS-REFERENCE'' [''button'']]"
proof -
  have h: "1 < length (matching (document (u_driver driver0)) ''button'')"
    by (simp add: document_driver0 matching_fixture)
  have first: "matching (document (u_driver driver0)) ''button'' ! 0 = 11"
    by (simp add: document_driver0 matching_fixture)
  show ?thesis
    by (rule conjI [OF h ambiguous_reference_first_match [OF h, unfolded first]])
qed

text \<open>
  Claim C2. When a selector matches no element, \<^verbatim>\<open>_findOne\<close> and \<^verbatim>\<open>use\<close> both fail with
  \<^verbatim>\<open>ARIADRIVER-ELEMENT-NOT-FOUND\<close> carrying that selector. The query for the elements is
  the only thing sent to the server: no focus script is run and no key is dispatched.
\<close>

theorem element_not_found:
  assumes "matching (document (u_driver d)) selector = []"
  shows "fst (u_findOne selector d)
           = Inl (AriaDriverError2 ''ARIADRIVER-ELEMENT-NOT-FOUND'' [selector])
       \<and> fst (use selector d)
           = Inl (AriaDriverError2 ''ARIADRIVER-ELEMENT-NOT-FOUND'' [selector])
       \<and> during d (snd (u_findOne selector d)) = [Issued (FindElements selector)]
       \<and> during d (snd (use selector d)) = [Issued (FindElements selector)]
       \<and> (\<forall>e k. ExecuteScript e \<notin> set (commands (during d (snd (use selector d))))
                \<and> SendKeys e k \<notin> set (commands (during d (snd (use selector d)))))"
  by (simp add: u_findOne_empty [OF assms] use_empty [OF assms] during_def)

theorem element_not_found_witness:
  "matching (document (u_driver driver0)) ''#none'' = []
   \<and> fst (u_findOne ''#none'' driver0)
       = Inl (AriaDriverError2 ''ARIADRIVER-ELEMENT-NOT-FOUND'' [''#none''])
   \<and> fst (use ''#none'' driver0)
       = Inl (AriaDriverError2 ''ARIADRIVER-ELEMENT-NOT-FOUND'' [''#none''])
   \<and> during driver0 (snd (use ''#none'' driver0)) = [Issued (FindElements ''#none'')]"
proof -
  have h: "matching (document (u_driver driver0)) ''#none'' = []"
    by (simp add: document_driver0 matching_fixture)
  from element_not_found [OF h] show ?thesis
    using h by blast
qed

text \<open>
  Claim C3. For a resolved element, the warnings of the resolution call contain a
  \<^verbatim>\<open>ARIADRIVER-POOR-SEMANTICS\<close> warning (exactly one, quoting the attribute) if and only
  if the \<^verbatim>\<open>tabindex\<close> attribute of the first match is present and \<^verbatim>\<open>parseInt\<close> reads
  an integer greater than 0 from it; for every other value (absent, no integer to read,
  an integer of 0 or less) there is none. Parsing is that of \<^verbatim>\<open>parseInt(value, 10)\<close>:
  leading white space, one sign, then the digits up to the first other character.
\<close>

theorem poor_semantics_iff_positive_tabindex:
  assumes "matching (document (u_driver d)) selector \<noteq> []"
  shows "[w \<leftarrow> warnings (during d (snd (u_findOne selector d))).
            code w = ''ARIADRIVER-POOR-SEMANTICS'']
         = (if \<exists>s n. attribute (document (u_driver d))
                        (matching (document (u_driver d)) selector ! 0) ''tabindex'' = Some s
                      \<and> parseInt10 (Some s) = Some n \<and> 0 < n
            then [POOR_SEMANTICS (attribute (document (u_driver d))
                                   (matching (document (u_driver d)) selector ! 0) ''tabindex'')]
            else [])"
proof -
  from assms obtain t ts where m: "matching (document (u_driver d)) selector = t # ts"
    by (cases "matching (document (u_driver d)) selector") auto
  let ?tab = "attribute (document (u_driver d)) t ''tabindex''"
  let ?new = "[Issued (FindElements selector)]
              @ (if ts = [] then []
                 else [Emitted ''warning''
                         (AriaDriverError2 ''ARIADRIVER-AMBIGUOUS-REFERENCE'' [selector])])
              @ [Issued (GetAttribute t ''tabindex'')]
              @ (if greater0 (parseInt10 ?tab)
                 then [Emitted ''warning'' (POOR_SEMANTICS ?tab)] else [])"
  have "trace (snd (u_findOne selector d)) = trace d @ ?new"
    by (simp add: u_findOne_found [OF m])
  then have "during d (snd (u_findOne selector d)) = ?new"
    by (rule during_append)
  then have "[w \<leftarrow> warnings (during d (snd (u_findOne selector d))).
                code w = ''ARIADRIVER-POOR-SEMANTICS'']
             = (if greater0 (parseInt10 ?tab) then [POOR_SEMANTICS ?tab] else [])"
    by (simp add: warnings_append code_AriaDriverError2 code_POOR_SEMANTICS)
  then show ?thesis
    by (simp only: m nth_Cons_0 greater0_parseInt10_iff)
qed

theorem poor_semantics_iff_positive_tabindex_witness:
  "matching (document (u_driver driver0)) ''#tab'' \<noteq> []
   \<and> [w \<leftarrow> warnings (during driver0 (snd (u_findOne ''#tab'' driver0))).
         code w = ''ARIADRIVER-POOR-SEMANTICS'']
       = [POOR_SEMANTICS (Some ''1'')]
   \<and> matching (document (u_driver driver0)) ''#ok'' \<noteq> []
   \<and> [w \<leftarrow> warnings (during driver0 (snd (u_findOne ''#ok'' driver0))).
         code w = ''ARIADRIVER-POOR-SEMANTICS'']
       = []"
proof -
  have h1: "matching (document (u_driver driver0)) ''#tab'' \<noteq> []"
    and h2: "matching (document (u_driver driver0)) ''#ok'' \<noteq> []"
    by (simp_all add: document_driver0 matching_fixture)
  show ?thesis
    using h1 h2 poor_semantics_iff_positive_tabindex [OF h1]
      poor_semantics_iff_positive_tabindex [OF h2]
    by (simp add: document_driver0 matching_fixture attribute_fixture parseInt10_examples)
qed

lemma u_use_page:
  "activeElement (document (u_driver (snd (u_use selector target d)))) = Some target
     \<longleftrightarrow> (attribute (document (u_driver d)) target ''aria-hidden'' \<noteq> Some ''true''
            \<and> focusable (document (u_driver d)) target)
          \<or> activeElement (document (u_driver d)) = Some target"
proof -
  let ?pg = "document (u_driver d)"
  consider (hidden) "attribute ?pg target ''aria-hidden'' = Some ''true''"
    | (rejected) "attribute ?pg target ''aria-hidden'' \<noteq> Some ''true''"
        "\<not> focusable ?pg target" "activeElement ?pg \<noteq> Some target"
    | (accepted) "attribute ?pg target ''aria-hidden'' \<noteq> Some ''true''"
        "focusable ?pg target \<or> activeElement ?pg = Some target"
    by blast
  then show ?thesis
  proof cases
    case hidden
    then show ?thesis by (simp add: u_use_hidden [OF hidden])
  next
    case rejected
    then show ?thesis by (simp add: u_use_rejected [OF rejected])
  next
    case accepted
    then show ?thesis by (auto simp add: u_use_accepted [OF accepted])
  qed
qed

text \<open>
  Claim C4. The steps of \<^verbatim>\<open>_use\<close> are ordered and each failure ends the call. When the
  target's \<^verbatim>\<open>aria-hidden\<close> is exactly \<^verbatim>\<open>true\<close>, the call fails with
  \<^verbatim>\<open>ARIADRIVER-ELEMENT-UNFOCUSABLE\<close> and reading that attribute is all it has sent: no
  focus script. Otherwise the focus script is run next; when the page's active element
  is then not the target, the call fails with the same error and no key has been sent.
  When the active element is the target, Enter is dispatched last and the call
  succeeds. A key is dispatched in no other case: wherever a \<^verbatim>\<open>SendKeys\<close> occurs, it is
  Enter on the target, after the attribute read and the focus script, on an element that
  is not hidden and has become the active element.
\<close>

theorem use_steps_ordered:
  "(attribute (document (u_driver d)) target ''aria-hidden'' = Some ''true'' \<longrightarrow>
      fst (u_use selector target d)
        = Inl (AriaDriverError2 ''ARIADRIVER-ELEMENT-UNFOCUSABLE'' [selector])
      \<and> during d (snd (u_use selector target d))
        = [Issued (GetAttribute target ''aria-hidden'')])
   \<and> (attribute (document (u_driver d)) target ''aria-hidden'' \<noteq> Some ''true''
      \<and> activeElement (document (u_driver (snd (u_use selector target d)))) \<noteq> Some target \<longrightarrow>
      fst (u_use selector target d)
        = Inl (AriaDriverError2 ''ARIADRIVER-ELEMENT-UNFOCUSABLE'' [selector])
      \<and> during d (snd (u_use selector target d))
        = [Issued (GetAttribute target ''aria-hidden''), Issued (ExecuteScript target)])
   \<and> (attribute (document (u_driver d)) target ''aria-hidden'' \<noteq> Some ''true''
      \<and> activeElement (document (u_driver (snd (u_use selector target d)))) = Some target \<longrightarrow>
      fst (u_use selector target d) = Inr ()
      \<and> during d (snd (u_use selector target d))
        = [Issued (GetAttribute target ''aria-hidden''), Issued (ExecuteScript target),
           Issued (SendKeys target ENTER)])
   \<and> (\<forall>e k. SendKeys e k \<in> set (commands (during d (snd (u_use selector target d)))) \<longrightarrow>
        attribute (document (u_driver d)) target ''aria-hidden'' \<noteq> Some ''true''
        \<and> activeElement (document (u_driver (snd (u_use selector target d)))) = Some target
        \<and> during d (snd (u_use selector target d))
          = [Issued (GetAttribute target ''aria-hidden''), Issued (ExecuteScript target),
             Issued (SendKeys target ENTER)])"
proof -
  let ?pg = "document (u_driver d)"
  consider (hidden) "attribute ?pg target ''aria-hidden'' = Some ''true''"
    | (rejected) "attribute ?pg target ''aria-hidden'' \<noteq> Some ''true''"
        "\<not> focusable ?pg target" "activeElement ?pg \<noteq> Some target"
    | (accepted) "attribute ?pg target ''aria-hidden'' \<noteq> Some ''true''"
        "focusable ?pg target \<or> activeElement ?pg = Some target"
    by blast
  then show ?thesis
  proof cases
    case hidden
    then show ?thesis
      by (simp add: u_use_hidden [OF hidden] during_def)
  next
    case rejected
    then show ?thesis
      by (simp add: u_use_rejected [OF rejected] during_def)
  next
    case accepted
    then show ?thesis
      by (simp add: u_use_accepted [OF accepted] during_def)
  qed
qed

theorem use_steps_ordered_witness:
  "attribute (document (u_driver driver0)) 14 ''aria-hidden'' = Some ''true''
   \<and> fst (u_use ''#hidden'' 14 driver0)
       = Inl (AriaDriverError2 ''ARIADRIVER-ELEMENT-UNFOCUSABLE'' [''#hidden''])
   \<and> during driver0 (snd (u_use ''#hidden'' 14 driver0))
       = [Issued (GetAttribute 14 ''aria-hidden'')]
   \<and> attribute (document (u_driver driver0)) 16 ''aria-hidden'' \<noteq> Some ''true''
   \<and> activeElement (document (u_driver (snd (u_use ''#div'' 16 driver0)))) \<noteq> Some 16
   \<and> fst (u_use ''#div'' 16 driver0)
       = Inl (AriaDriverError2 ''ARIADRIVER-ELEMENT-UNFOCUSABLE'' [''#div''])
   \<and> during driver0 (snd (u_use ''#div'' 16 driver0))
       = [Issued (GetAttribute 16 ''aria-hidden''), Issued (ExecuteScript 16)]
   \<and> attribute (document (u_driver driver0)) 11 ''aria-hidden'' \<noteq> Some ''true''
   \<and> activeElement (document (u_driver (snd (u_use ''#ok'' 11 driver0)))) = Some 11
   \<and> fst (u_use ''#ok'' 11 driver0) = Inr ()
   \<and> SendKeys 11 ENTER \<in> set (commands (during driver0 (snd (u_use ''#ok'' 11 driver0))))
   \<and> during driver0 (snd (u_use ''#ok'' 11 driver0))
       = [Issued (GetAttribute 11 ''aria-hidden''), Issued (ExecuteScript 11),
          Issued (SendKeys 11 ENTER)]"
proof -
  have h1: "attribute (document (u_driver driver0)) 14 ''aria-hidden'' = Some ''true''"
    by (simp add: document_driver0 attribute_fixture)
  have h2: "attribute (document (u_driver driver0)) 16 ''aria-hidden'' \<noteq> Some ''true''"
    by (simp add: document_driver0 attribute_fixture)
  have h3: "activeElement (document (u_driver (snd (u_use ''#div'' 16 driver0)))) \<noteq> Some 16"
    by (simp add: u_use_page document_driver0 attribute_fixture focus_fixture)
  have h4: "attribute (document (u_driver driver0)) 11 ''aria-hidden'' \<noteq> Some ''true''"
    by (simp add: document_driver0 attribute_fixture)
  have h5: "activeElement (document (u_driver (snd (u_use ''#ok'' 11 driver0)))) = Some 11"
    by (simp add: u_use_page document_driver0 attribute_fixture focus_fixture)
  note a = use_steps_ordered [of driver0 14 "''#hidden''",
                              THEN conjunct1, THEN mp, OF h1]
  note b = use_steps_ordered [of driver0 16 "''#div''",
                              THEN conjunct2, THEN conjunct1, THEN mp, OF conjI [OF h2 h3]]
  note c = use_steps_ordered [of driver0 11 "''#ok''",
                              THEN conjunct2, THEN conjunct2, THEN conjunct1, THEN mp,
                              OF conjI [OF h4 h5]]
  have sent: "SendKeys 11 ENTER \<in> set (commands (during driver0 (snd (u_use ''#ok'' 11 driver0))))"
    by (simp add: c)
  show ?thesis
    by (intro conjI h1 h2 h3 h4 h5 sent a [THEN conjunct1] a [THEN conjunct2]
          b [THEN conjunct1] b [THEN conjunct2] c [THEN conjunct1] c [THEN conjunct2])
qed

text \<open>
  Claim C5, as the code has it. For a selector that matches exactly one element whose
  \<^verbatim>\<open>aria-hidden\<close> is not \<^verbatim>\<open>true\<close>, whose \<^verbatim>\<open>tabindex\<close> does not parse to an integer above
  0, and which takes the focus when the script focuses it (it is focusable, or it is the
  active element already), \<^verbatim>\<open>use\<close> succeeds and emits no warning: it sends the element
  query, the two attribute reads, the focus script and Enter.
\<close>

theorem use_succeeds_without_warnings:
  assumes "matching (document (u_driver d)) selector = [t]"
    and "attribute (document (u_driver d)) t ''aria-hidden'' \<noteq> Some ''true''"
    and "\<not> greater0 (parseInt10 (attribute (document (u_driver d)) t ''tabindex''))"
    and "focusable (document (u_driver d)) t \<or> activeElement (document (u_driver d)) = Some t"
  shows "fst (use selector d) = Inr ()
       \<and> warnings (during d (snd (use selector d))) = []
       \<and> during d (snd (use selector d))
           = [Issued (FindElements selector), Issued (GetAttribute t ''tabindex''),
              Issued (GetAttribute t ''aria-hidden''), Issued (ExecuteScript t),
              Issued (SendKeys t ENTER)]"
proof -
  let ?d1 = "snd (u_findOne selector d)"
  have d1: "?d1 = d\<lparr>trace := trace d @ [Issued (FindElements selector),
                                          Issued (GetAttribute t ''tabindex'')]\<rparr>"
    using assms(3) by (simp add: u_findOne_found [OF assms(1)])
  have pg: "document (u_driver ?d1) = document (u_driver d)"
    by (simp add: d1)
  have u: "use selector d = u_use selector t ?d1"
    by (rule use_found [OF assms(1)])
  have a2: "attribute (document (u_driver ?d1)) t ''aria-hidden'' \<noteq> Some ''true''"
    unfolding pg by (rule assms(2))
  have a4: "focusable (document (u_driver ?d1)) t
            \<or> activeElement (document (u_driver ?d1)) = Some t"
    unfolding pg by (rule assms(4))
  have "u_use selector t ?d1 =
          (Inr (),
           ?d1\<lparr>trace := trace ?d1 @ [Issued (GetAttribute t ''aria-hidden''),
                                      Issued (ExecuteScript t), Issued (SendKeys t ENTER)],
               u_driver := (u_driver ?d1)\<lparr>document :=
                             (document (u_driver ?d1))\<lparr>activeElement := Some t\<rparr>\<rparr>\<rparr>)"
    by (rule u_use_accepted [OF a2 a4])
  then show ?thesis
    by (simp add: u d1 during_def)
qed

theorem use_succeeds_without_warnings_witness:
  "matching (document (u_driver driver0)) ''#ok'' = [11]
   \<and> attribute (document (u_driver driver0)) 11 ''aria-hidden'' \<noteq> Some ''true''
   \<and> \<not> greater0 (parseInt10 (attribute (document (u_driver driver0)) 11 ''tabindex''))
   \<and> focusable (document (u_driver driver0)) 11
   \<and> fst (use ''#ok'' driver0) = Inr ()
   \<and> warnings (during driver0 (snd (use ''#ok'' driver0))) = []"
proof -
  have h1: "matching (document (u_driver driver0)) ''#ok'' = [11]"
    and h2: "attribute (document (u_driver driver0)) 11 ''aria-hidden'' \<noteq> Some ''true''"
    and h3: "\<not> greater0 (parseInt10 (attribute (document (u_driver driver0)) 11 ''tabindex''))"
    and h4: "focusable (document (u_driver driver0)) 11"
    by (simp_all add: document_driver0 matching_fixture attribute_fixture focus_fixture
          parseInt10_null greater0_def)
  from h4 have h4': "focusable (document (u_driver driver0)) 11
                     \<or> activeElement (document (u_driver driver0)) = Some 11" ..
  from use_succeeds_without_warnings [OF h1 h2 h3 h4'] h1 h2 h3 h4 show ?thesis
    by blast
qed

text \<open>
  Claim C5 as stated fails: \<^verbatim>\<open>#div\<close> matches exactly one element, which has neither
  \<^verbatim>\<open>aria-hidden\<close> nor \<^verbatim>\<open>tabindex\<close> but cannot take the focus, and \<^verbatim>\<open>use\<close> rejects with
  \<^verbatim>\<open>ARIADRIVER-ELEMENT-UNFOCUSABLE\<close>.
\<close>

theorem use_unfocusable_counterexample:
  "matching (document (u_driver driver0)) ''#div'' = [16]
   \<and> attribute (document (u_driver driver0)) 16 ''aria-hidden'' = None
   \<and> attribute (document (u_driver driver0)) 16 ''tabindex'' = None
   \<and> fst (use ''#div'' driver0)
       = Inl (AriaDriverError2 ''ARIADRIVER-ELEMENT-UNFOCUSABLE'' [''#div''])
   \<and> fst (use ''#div'' driver0) \<noteq> Inr ()"
proof -
  have m: "matching (document (u_driver driver0)) ''#div'' = [16]"
    by (simp add: document_driver0 matching_fixture)
  let ?d1 = "snd (u_findOne ''#div'' driver0)"
  have pg: "document (u_driver ?d1) = fixture"
    by (simp add: u_findOne_found [OF m] document_driver0)
  have "u_use ''#div'' 16 ?d1 =
          (Inl (AriaDriverError2 ''ARIADRIVER-ELEMENT-UNFOCUSABLE'' [''#div'']),
           ?d1\<lparr>trace := trace ?d1 @ [Issued (GetAttribute 16 ''aria-hidden''),
                                      Issued (ExecuteScript 16)]\<rparr>)"
    by (rule u_use_rejected) (simp_all add: pg attribute_fixture focus_fixture)
  then have "fst (use ''#div'' driver0)
               = Inl (AriaDriverError2 ''ARIADRIVER-ELEMENT-UNFOCUSABLE'' [''#div''])"
    by (simp add: use_found [OF m])
  then show ?thesis
    by (simp add: document_driver0 matching_fixture attribute_fixture)
qed

text \<open>
  Claim C10. A warning of the resolution is emitted before the activation starts and
  stays emitted when the activation fails. When the single match of a selector has a
  \<^verbatim>\<open>tabindex\<close> that parses to an integer above 0 and \<^verbatim>\<open>aria-hidden="true"\<close>, \<^verbatim>\<open>use\<close>
  rejects with \<^verbatim>\<open>ARIADRIVER-ELEMENT-UNFOCUSABLE\<close>; the
  \<^verbatim>\<open>ARIADRIVER-POOR-SEMANTICS\<close> warning comes before the read of \<^verbatim>\<open>aria-hidden\<close>, the
  first step of the activation, and the listeners have received it, after all they had
  received before.
\<close>

theorem warning_kept_on_later_failure:
  assumes "matching (document (u_driver d)) selector = [t]"
    and "attribute (document (u_driver d)) t ''tabindex'' = Some s"
    and "parseInt10 (Some s) = Some n" and "0 < n"
    and "attribute (document (u_driver d)) t ''aria-hidden'' = Some ''true''"
  shows "fst (use selector d)
           = Inl (AriaDriverError2 ''ARIADRIVER-ELEMENT-UNFOCUSABLE'' [selector])
       \<and> during d (snd (use selector d))
           = [Issued (FindElements selector), Issued (GetAttribute t ''tabindex''),
              Emitted ''warning'' (POOR_SEMANTICS (Some s)),
              Issued (GetAttribute t ''aria-hidden'')]
       \<and> warnings (trace (snd (use selector d)))
           = warnings (trace d) @ [POOR_SEMANTICS (Some s)]"
proof -
  let ?d1 = "snd (u_findOne selector d)"
  have g: "greater0 (parseInt10 (attribute (document (u_driver d)) t ''tabindex''))"
    using assms(2,3,4) by (simp add: greater0_def)
  have d1: "?d1 = d\<lparr>trace := trace d @ [Issued (FindElements selector),
                                          Issued (GetAttribute t ''tabindex''),
                                          Emitted ''warning'' (POOR_SEMANTICS (Some s))]\<rparr>"
    using g assms(2) by (simp add: u_findOne_found [OF assms(1)])
  have pg: "document (u_driver ?d1) = document (u_driver d)"
    by (simp add: d1)
  have a5: "attribute (document (u_driver ?d1)) t ''aria-hidden'' = Some ''true''"
    unfolding pg by (rule assms(5))
  have "u_use selector t ?d1 =
          (Inl (AriaDriverError2 ''ARIADRIVER-ELEMENT-UNFOCUSABLE'' [selector]),
           ?d1\<lparr>trace := trace ?d1 @ [Issued (GetAttribute t ''aria-hidden'')]\<rparr>)"
    by (rule u_use_hidden [OF a5])
  then show ?thesis
    by (simp add: use_found [OF assms(1)] d1 during_def warnings_append)
qed

theorem warning_kept_on_later_failure_witness:
  "matching (document (u_driver driver0)) ''#hidden'' = [14]
   \<and> attribute (document (u_driver driver0)) 14 ''tabindex'' = Some ''2''
   \<and> parseInt10 (Some ''2'') = Some 2 \<and> (0::int) < 2
   \<and> attribute (document (u_driver driver0)) 14 ''aria-hidden'' = Some ''true''
   \<and> fst (use ''#hidden'' driver0)
       = Inl (AriaDriverError2 ''ARIADRIVER-ELEMENT-UNFOCUSABLE'' [''#hidden''])
   \<and> during driver0 (snd (use ''#hidden'' driver0))
       = [Issued (FindElements ''#hidden''), Issued (GetAttribute 14 ''tabindex''),
          Emitted ''warning'' (POOR_SEMANTICS (Some ''2'')),
          Issued (GetAttribute 14 ''aria-hidden'')]
   \<and> warnings (trace (snd (use ''#hidden'' driver0))) = [POOR_SEMANTICS (Some ''2'')]"
proof -
  have h1: "matching (document (u_driver driver0)) ''#hidden'' = [14]"
    and h2: "attribute (document (u_driver driver0)) 14 ''tabindex'' = Some ''2''"
    and h3: "parseInt10 (Some ''2'') = Some 2" and h4: "(0::int) < 2"
    and h5: "attribute (document (u_driver driver0)) 14 ''aria-hidden'' = Some ''true''"
    by (simp_all add: document_driver0 matching_fixture attribute_fixture parseInt10_examples)
  from warning_kept_on_later_failure [OF h1 h2 h3 h4 h5] h1 h2 h3 h4 h5 show ?thesis
    by (simp add: trace_driver0)
qed

lemma options_patience:
  "property (Object_assign Map.empty [Some defaults, options]) ''patience''
     = (case options of
          None \<Rightarrow> Number 1000
        | Some given \<Rightarrow> (case given ''patience'' of None \<Rightarrow> Number 1000 | Some v \<Rightarrow> v))"
  by (cases options) (simp_all add: property_def defaults_def map_add_def split: option.splits)

lemma options_url:
  "property (Object_assign Map.empty [Some defaults, options]) ''url''
     = (case options of
          None \<Rightarrow> Undefined
        | Some given \<Rightarrow> (case given ''url'' of None \<Rightarrow> Undefined | Some v \<Rightarrow> v))"
  by (cases options) (simp_all add: property_def defaults_def map_add_def split: option.splits)

lemma constructor_fields:
  "constructor options sid pg =
     \<lparr>u_patience = (case options of
                      None \<Rightarrow> Number 1000
                    | Some given \<Rightarrow>
                        (case given ''patience'' of None \<Rightarrow> Number 1000 | Some v \<Rightarrow> v)),
      u_driver = \<lparr>browser = ''firefox'',
                  server = (case options of
                              None \<Rightarrow> Undefined
                            | Some given \<Rightarrow>
                                (case given ''url'' of None \<Rightarrow> Undefined | Some v \<Rightarrow> v)),
                  session = sid, document = pg\<rparr>,
      trace = []\<rparr>"
  by (simp only: constructor_def Let_def options_patience options_url build_def)

lemma u_findOne_patience: "u_patience (snd (u_findOne selector d)) = u_patience d"
proof (cases "matching (document (u_driver d)) selector")
  case Nil
  then show ?thesis by (simp add: u_findOne_empty)
next
  case (Cons t ts)
  then show ?thesis by (simp add: u_findOne_found)
qed

lemma u_use_patience: "u_patience (snd (u_use selector target d)) = u_patience d"
proof -
  let ?pg = "document (u_driver d)"
  consider (hidden) "attribute ?pg target ''aria-hidden'' = Some ''true''"
    | (rejected) "attribute ?pg target ''aria-hidden'' \<noteq> Some ''true''"
        "\<not> focusable ?pg target" "activeElement ?pg \<noteq> Some target"
    | (accepted) "attribute ?pg target ''aria-hidden'' \<noteq> Some ''true''"
        "focusable ?pg target \<or> activeElement ?pg = Some target"
    by blast
  then show ?thesis
  proof cases
    case hidden
    show ?thesis by (simp add: u_use_hidden [OF hidden])
  next
    case rejected
    show ?thesis by (simp add: u_use_rejected [OF rejected])
  next
    case accepted
    show ?thesis by (simp add: u_use_accepted [OF accepted])
  qed
qed

lemma use_patience: "u_patience (snd (use selector d)) = u_patience d"
proof (cases "matching (document (u_driver d)) selector")
  case Nil
  then show ?thesis by (simp add: use_empty)
next
  case (Cons t ts)
  then show ?thesis by (simp add: use_found u_use_patience u_findOne_patience)
qed

lemma call_patience: "patience (call d op) = patience d"
proof (cases op)
  case (CallFindOne selector)
  then show ?thesis by (simp add: patience_def u_findOne_patience)
next
  case (CallUse selector)
  then show ?thesis by (simp add: patience_def use_patience)
next
  case (CallUse2 selector target)
  then show ?thesis by (simp add: patience_def u_use_patience)
qed (simp_all add: patience_def getSessionId_def get_def count_def findElements_def
       quit_def issue_def)

lemma calls_patience: "patience (foldl call d ops) = patience d"
  by (induction ops arbitrary: d) (simp_all add: call_patience)

text \<open>
  Claim C6. The patience of a driver is decided by the constructor: it is the
  \<^verbatim>\<open>patience\<close> property of the options when there is one, and 1000 when no options or
  no such property are given. No method changes it: after any sequence of calls of the
  methods of the class (\<^verbatim>\<open>patience\<close>, \<^verbatim>\<open>getSessionId\<close>, \<^verbatim>\<open>get\<close>, \<^verbatim>\<open>count\<close>, \<^verbatim>\<open>_findOne\<close>,
  \<^verbatim>\<open>use\<close>, \<^verbatim>\<open>_use\<close>, \<^verbatim>\<open>quit\<close>), with any arguments, the accessor returns what it returned
  right after construction.
\<close>

theorem patience_fixed_at_construction:
  "patience (constructor options sid pg)
     = (case options of
          None \<Rightarrow> Number 1000
        | Some given \<Rightarrow> (case given ''patience'' of None \<Rightarrow> Number 1000 | Some v \<Rightarrow> v))
   \<and> patience (foldl call (constructor options sid pg) ops)
     = patience (constructor options sid pg)"
  by (simp add: calls_patience) (simp add: patience_def constructor_fields)

text \<open>
  Claim C7, as the code has it. The constructor stores the \<^verbatim>\<open>patience\<close> option as it
  is given, without a check: the patience of a driver is that option, or 1000 when no
  options or no \<^verbatim>\<open>patience\<close> are given. So it is a number of at least 0 whenever no
  \<^verbatim>\<open>patience\<close> is passed or the one passed is a number of at least 0, and it is that
  negative number, below 0, whenever a negative number is passed.
\<close>

theorem patience_is_option_unchecked:
  "patience (constructor options sid pg)
     = (case options of
          None \<Rightarrow> Number 1000
        | Some given \<Rightarrow> (case given ''patience'' of None \<Rightarrow> Number 1000 | Some v \<Rightarrow> v))
   \<and> (options = None
       \<or> (\<exists>given. options = Some given
                  \<and> (given ''patience'' = None
                     \<or> (\<exists>n. given ''patience'' = Some (Number n) \<and> 0 \<le> n))) \<longrightarrow>
      (\<exists>n. patience (constructor options sid pg) = Number n \<and> 0 \<le> n))
   \<and> (\<forall>given n. options = Some given \<and> given ''patience'' = Some (Number n) \<and> n < 0 \<longrightarrow>
        patience (constructor options sid pg) = Number n \<and> \<not> 0 \<le> n)"
proof -
  have stored: "patience (constructor options sid pg)
     = (case options of
          None \<Rightarrow> Number 1000
        | Some given \<Rightarrow> (case given ''patience'' of None \<Rightarrow> Number 1000 | Some v \<Rightarrow> v))"
    by (simp add: patience_def constructor_fields)
  show ?thesis
    unfolding stored by auto
qed

theorem patience_is_option_unchecked_witness:
  "[''patience'' \<mapsto> Number 250] ''patience'' = Some (Number 250) \<and> (0::int) \<le> 250
   \<and> patience (constructor (Some [''patience'' \<mapsto> Number 250]) ''session'' fixture)
       = Number 250
   \<and> (\<exists>n. patience (constructor (Some [''patience'' \<mapsto> Number 250]) ''session'' fixture)
             = Number n \<and> 0 \<le> n)
   \<and> patience (constructor None ''session'' fixture) = Number 1000
   \<and> (\<exists>n. patience (constructor None ''session'' fixture) = Number n \<and> 0 \<le> n)
   \<and> [''patience'' \<mapsto> Number (- 5)] ''patience'' = Some (Number (- 5)) \<and> (- 5 :: int) < 0
   \<and> patience (constructor (Some [''patience'' \<mapsto> Number (- 5)]) ''session'' fixture)
       = Number (- 5)"
proof -
  let ?pos = "[''patience'' \<mapsto> Number 250]"
  let ?neg = "[''patience'' \<mapsto> Number (- 5)]"
  have h1: "?pos ''patience'' = Some (Number 250)" and h2: "(0::int) \<le> 250"
    and h3: "?neg ''patience'' = Some (Number (- 5))" and h4: "(- 5 :: int) < 0"
    by simp_all
  note a = patience_is_option_unchecked [of "Some ?pos" "''session''" fixture]
  note b = patience_is_option_unchecked [of None "''session''" fixture]
  note c = patience_is_option_unchecked [of "Some ?neg" "''session''" fixture]
  have a1: "patience (constructor (Some ?pos) ''session'' fixture) = Number 250"
    using a [THEN conjunct1] by simp
  have a2: "\<exists>n. patience (constructor (Some ?pos) ''session'' fixture) = Number n \<and> 0 \<le> n"
    using a [THEN conjunct2, THEN conjunct1] h1 h2 by blast
  have b1: "patience (constructor None ''session'' fixture) = Number 1000"
    using b [THEN conjunct1] by simp
  have b2: "\<exists>n. patience (constructor None ''session'' fixture) = Number n \<and> 0 \<le> n"
    using b [THEN conjunct2, THEN conjunct1] by blast
  have c1: "patience (constructor (Some ?neg) ''session'' fixture) = Number (- 5)"
    using c [THEN conjunct2, THEN conjunct2] h3 h4 by blast
  show ?thesis
    by (intro conjI h1 h2 h3 h4 a1 a2 b1 b2 c1)
qed

text \<open>
  Claim C7 as stated fails: constructed with \<^verbatim>\<open>{ patience: -1 }\<close>, the driver reports a
  patience of -1, which is below 0.
\<close>

theorem negative_patience_counterexample:
  "patience (constructor (Some [''patience'' \<mapsto> Number (- 1)]) ''session'' fixture)
     = Number (- 1)
   \<and> (- 1 :: int) < 0"
  by (simp add: patience_def constructor_fields)

lemma validate_rejects:
  assumes "attribute (document (u_driver d)) element (fst (markupRule kind)) = None
           \<or> attribute (document (u_driver d)) element (fst (markupRule kind)) = Some ''false''
           \<or> (\<exists>token. attribute (document (u_driver d)) element (fst (markupRule kind))
                          = Some token
                        \<and> token \<notin> set (snd (markupRule kind)))"
  shows "\<exists>reason. validate kind selector element d =
           (Inl (INVALID_MARKUP selector reason),
            d\<lparr>trace := trace d @ [Issued (GetAttribute element (fst (markupRule kind)))]\<rparr>)"
  using assms
  by (auto simp add: validate_def getAttribute_def issue_def)

lemma validate_accepts:
  assumes "attribute (document (u_driver d)) element (fst (markupRule kind)) = Some token"
    and "token \<noteq> ''false''" and "token \<in> set (snd (markupRule kind))"
  shows "validate kind selector element d =
           (Inr (),
            d\<lparr>trace := trace d @ [Issued (GetAttribute element (fst (markupRule kind)))]\<rparr>)"
  using assms by (simp add: validate_def getAttribute_def issue_def)

lemma u_findOne_document: "document (u_driver (snd (u_findOne selector d))) = document (u_driver d)"
proof (cases "matching (document (u_driver d)) selector")
  case Nil
  then show ?thesis by (simp add: u_findOne_empty)
next
  case (Cons t ts)
  then show ?thesis by (simp add: u_findOne_found)
qed

lemma u_findOne_commands:
  assumes "matching (document (u_driver d)) selector = t # ts"
  shows "commands (during d (snd (u_findOne selector d)))
           = [FindElements selector, GetAttribute t ''tabindex'']"
  by (simp add: u_findOne_found [OF assms] during_def)

lemma u_findOne_extends:
  "\<exists>new. trace (snd (u_findOne selector d)) = trace d @ new"
proof (cases "matching (document (u_driver d)) selector")
  case Nil
  then show ?thesis by (simp add: u_findOne_empty)
next
  case (Cons t ts)
  then show ?thesis by (simp add: u_findOne_found)
qed

lemma interact_invalid:
  assumes m: "matching (document (u_driver d)) selector = trigger # others"
    and inv: "attribute (document (u_driver d)) trigger (fst (markupRule kind)) = None
           \<or> attribute (document (u_driver d)) trigger (fst (markupRule kind)) = Some ''false''
           \<or> (\<exists>token. attribute (document (u_driver d)) trigger (fst (markupRule kind))
                          = Some token
                        \<and> token \<notin> set (snd (markupRule kind)))"
  shows "\<exists>reason. interact kind selector remote d =
           (Inl (INVALID_MARKUP selector reason),
            (snd (u_findOne selector d))
              \<lparr>trace := trace (snd (u_findOne selector d))
                         @ [Issued (GetAttribute trigger (fst (markupRule kind)))]\<rparr>)"
proof -
  obtain d1 where f: "u_findOne selector d = (Inr trigger, d1)"
    by (simp add: u_findOne_found [OF m])
  have doc: "document (u_driver d1) = document (u_driver d)"
    using u_findOne_document [of selector d] by (simp add: f)
  have "attribute (document (u_driver d1)) trigger (fst (markupRule kind)) = None
        \<or> attribute (document (u_driver d1)) trigger (fst (markupRule kind)) = Some ''false''
        \<or> (\<exists>token. attribute (document (u_driver d1)) trigger (fst (markupRule kind))
                       = Some token
                     \<and> token \<notin> set (snd (markupRule kind)))"
    unfolding doc by (rule inv)
  from validate_rejects [OF this]
  obtain reason where "validate kind selector trigger d1 =
      (Inl (INVALID_MARKUP selector reason),
       d1\<lparr>trace := trace d1 @ [Issued (GetAttribute trigger (fst (markupRule kind)))]\<rparr>)"
    by blast
  then have "interact kind selector remote d =
      (Inl (INVALID_MARKUP selector reason),
       d1\<lparr>trace := trace d1 @ [Issued (GetAttribute trigger (fst (markupRule kind)))]\<rparr>)"
    by (simp add: interact_def f)
  then show ?thesis
    by (auto simp add: f)
qed

lemma poll_from_success:
  "fst (predicate (observe (remote elapsed) d)) \<Longrightarrow>
     poll_from predicate limit remote elapsed d
       = (success, snd (predicate (observe (remote elapsed) d)))"
  by (subst poll_from.simps) (simp add: Let_def)

lemma poll_from_timeout:
  "\<not> fst (predicate (observe (remote elapsed) d)) \<Longrightarrow> limit < elapsed \<Longrightarrow>
     poll_from predicate limit remote elapsed d
       = (timeout, snd (predicate (observe (remote elapsed) d)))"
  by (subst poll_from.simps) (simp add: Let_def)

lemma poll_from_again:
  "\<not> fst (predicate (observe (remote elapsed) d)) \<Longrightarrow> \<not> limit < elapsed \<Longrightarrow>
     poll_from predicate limit remote elapsed d
       = poll_from predicate limit remote (elapsed + samplingInterval)
           (snd (predicate (observe (remote elapsed) d)))"
  by (subst poll_from.simps) (simp add: Let_def)

text \<open>
  The protocol on the page of the fixture: the trigger with \<^verbatim>\<open>aria-haspopup="menu"\<close>
  opens its menu within the patience of 1000 ms, and on a page where nothing ever opens
  a driver with a patience of 25 ms gives up with \<^verbatim>\<open>ARIADRIVER-TIMEOUT\<close>.
\<close>

lemma openPopup_menu_opens:
  "fst (openPopup ''#menu'' menuOpens driver0) = Inr ()"
  by (simp add: openPopup_def interact_def use_def u_findOne_def u_use_def validate_def
        count_def findElements_def getAttribute_def executeScript_def sendKeys_def
        issue_def emit_def poll_def observe_def Let_def
        poll_from_success poll_from_again samplingInterval_def
        patienceMs_def patience_def driver0_def constructor_fields
        popup_def menuOpens_def fixture_def parseInt10_null greater0_def)

lemma openPopup_menu_times_out:
  "fst (openPopup ''#menu'' (\<lambda>t. fixture)
         (constructor (Some [''patience'' \<mapsto> Number 25]) ''session'' fixture))
     = Inl (AriaDriverError2 ''ARIADRIVER-TIMEOUT'' [''#menu''])"
  by (simp add: openPopup_def interact_def use_def u_findOne_def u_use_def validate_def
        count_def findElements_def getAttribute_def executeScript_def sendKeys_def
        issue_def emit_def poll_def observe_def Let_def
        poll_from_timeout poll_from_again samplingInterval_def
        patienceMs_def patience_def constructor_fields
        popup_def fixture_def parseInt10_null greater0_def)

text \<open>
  Claim C9. For a trigger whose \<^verbatim>\<open>aria-haspopup\<close> attribute (the attribute of the popup's
  markup rule) is absent, is the literal \<^verbatim>\<open>false\<close>, or is a token the rule does not
  accept, \<^verbatim>\<open>openPopup\<close> fails with \<^verbatim>\<open>ARIADRIVER-INVALID-MARKUP\<close> for that selector. All
  it has sent to the server is the resolution of the trigger (the element query and the
  read of \<^verbatim>\<open>tabindex\<close>) and the read of the attribute: the Focus Transfer Verifier has not
  run (no read of \<^verbatim>\<open>aria-hidden\<close>, no focus script, no key) and neither has the Patience
  Poller (no count of open containers).
\<close>

theorem openPopup_invalid_markup:
  assumes "matching (document (u_driver d)) selector = trigger # others"
    and "attribute (document (u_driver d)) trigger (fst (markupRule popup)) = None
         \<or> attribute (document (u_driver d)) trigger (fst (markupRule popup)) = Some ''false''
         \<or> (\<exists>token. attribute (document (u_driver d)) trigger (fst (markupRule popup))
                        = Some token
                      \<and> token \<notin> set (snd (markupRule popup)))"
  shows "(\<exists>reason. fst (openPopup selector remote d)
                     = Inl (AriaDriverError2 ''ARIADRIVER-INVALID-MARKUP'' [selector, reason]))
       \<and> commands (during d (snd (openPopup selector remote d)))
           = [FindElements selector, GetAttribute trigger ''tabindex'',
              GetAttribute trigger (fst (markupRule popup))]
       \<and> (\<forall>e k. ExecuteScript e \<notin> set (commands (during d (snd (openPopup selector remote d))))
                \<and> SendKeys e k \<notin> set (commands (during d (snd (openPopup selector remote d)))))"
proof -
  let ?d1 = "snd (u_findOne selector d)"
  let ?read = "GetAttribute trigger (fst (markupRule popup))"
  from interact_invalid [OF assms, of remote]
  obtain reason where r: "openPopup selector remote d =
      (Inl (INVALID_MARKUP selector reason), ?d1\<lparr>trace := trace ?d1 @ [Issued ?read]\<rparr>)"
    unfolding openPopup_def by blast
  obtain new where n: "trace ?d1 = trace d @ new"
    using u_findOne_extends by blast
  then have "during d ?d1 = new"
    by (rule during_append)
  then have c1: "commands new = [FindElements selector, GetAttribute trigger ''tabindex'']"
    using u_findOne_commands [OF assms(1)] by simp
  have "trace (snd (openPopup selector remote d)) = trace d @ (new @ [Issued ?read])"
    by (simp add: r n)
  then have "during d (snd (openPopup selector remote d)) = new @ [Issued ?read]"
    by (rule during_append)
  then have c: "commands (during d (snd (openPopup selector remote d)))
                  = [FindElements selector, GetAttribute trigger ''tabindex'', ?read]"
    by (simp add: commands_append c1)
  have "fst (openPopup selector remote d)
          = Inl (AriaDriverError2 ''ARIADRIVER-INVALID-MARKUP'' [selector, reason])"
    by (simp add: r INVALID_MARKUP_def)
  then have e: "\<exists>reason. fst (openPopup selector remote d)
                  = Inl (AriaDriverError2 ''ARIADRIVER-INVALID-MARKUP'' [selector, reason])"
    by blast
  from e c show ?thesis
    by simp
qed

theorem openPopup_invalid_markup_witness:
  "matching (document (u_driver driver0)) ''#false'' = [18]
   \<and> attribute (document (u_driver driver0)) 18 (fst (markupRule popup)) = Some ''false''
   \<and> (\<exists>reason. fst (openPopup ''#false'' menuOpens driver0)
                  = Inl (AriaDriverError2 ''ARIADRIVER-INVALID-MARKUP'' [''#false'', reason]))
   \<and> commands (during driver0 (snd (openPopup ''#false'' menuOpens driver0)))
       = [FindElements ''#false'', GetAttribute 18 ''tabindex'',
          GetAttribute 18 ''aria-haspopup'']"
proof -
  have n: "fst (markupRule popup) = ''aria-haspopup''"
    by (simp add: popup_def)
  have h1: "matching (document (u_driver driver0)) ''#false'' = [18]"
    by (simp add: document_driver0 matching_fixture)
  have h: "attribute (document (u_driver driver0)) 18 (fst (markupRule popup)) = Some ''false''"
    by (simp add: n document_driver0 attribute_fixture)
  then have h2: "attribute (document (u_driver driver0)) 18 (fst (markupRule popup)) = None
      \<or> attribute (document (u_driver driver0)) 18 (fst (markupRule popup)) = Some ''false''
      \<or> (\<exists>token. attribute (document (u_driver driver0)) 18 (fst (markupRule popup))
                     = Some token
                   \<and> token \<notin> set (snd (markupRule popup)))"
    by blast
  note t = openPopup_invalid_markup [OF h1 h2, of menuOpens]
  show ?thesis
    by (intro conjI h1 h t [THEN conjunct1] t [THEN conjunct2, THEN conjunct1, unfolded n])
qed

lemma count_step:
  "count c d = (length (matching (document (u_driver d)) c),
                d\<lparr>trace := trace d @ [Issued (FindElements c)]\<rparr>)"
  by (simp add: count_def findElements_def issue_def)

lemma samples_step:
  assumes "\<not> limit < elapsed"
  shows "Suc (if limit < elapsed + samplingInterval then 1
              else (limit - (elapsed + samplingInterval)) div samplingInterval + 2)
         = (limit - elapsed) div samplingInterval + 2"
proof (cases "limit < elapsed + samplingInterval")
  case True
  with assms have "limit - elapsed < samplingInterval" by simp
  then have "(limit - elapsed) div samplingInterval = 0" by simp
  with True show ?thesis by simp
next
  case False
  then have le: "samplingInterval \<le> limit - elapsed" by simp
  have pos: "0 < samplingInterval" by (simp add: samplingInterval_def)
  have "(limit - elapsed) div samplingInterval
          = Suc ((limit - elapsed - samplingInterval) div samplingInterval)"
    by (rule le_div_geq [OF pos le])
  with False show ?thesis by simp
qed

lemma poll_from_never:
  assumes never: "\<And>t. \<not> holds (length (matching (remote t) c))"
  shows "fst (poll_from (\<lambda>d. let (now, d) = count c d in (holds now, d)) limit remote elapsed d)
           = timeout
       \<and> trace (snd (poll_from (\<lambda>d. let (now, d) = count c d in (holds now, d))
                        limit remote elapsed d))
           = trace d @ replicate (if limit < elapsed then 1
                                  else (limit - elapsed) div samplingInterval + 2)
                         (Issued (FindElements c))"
proof (induction "Suc limit - elapsed" arbitrary: elapsed d rule: less_induct)
  case less
  let ?pred = "\<lambda>d. let (now, d) = count c d in (holds now, d)"
  let ?d1 = "(observe (remote elapsed) d)\<lparr>trace := trace d @ [Issued (FindElements c)]\<rparr>"
  have ev: "?pred (observe (remote elapsed) d) = (False, ?d1)"
    using never [of elapsed] by (simp add: count_step observe_def)
  have nf: "\<not> fst (?pred (observe (remote elapsed) d))"
    by (simp only: ev fst_conv simp_thms)
  show ?case
  proof (cases "limit < elapsed")
    case True
    have "poll_from ?pred limit remote elapsed d = (timeout, ?d1)"
      using poll_from_timeout [of ?pred remote elapsed d limit, OF nf True]
      by (simp only: ev snd_conv)
    with True show ?thesis by simp
  next
    case False
    have again: "poll_from ?pred limit remote elapsed d
                   = poll_from ?pred limit remote (elapsed + samplingInterval) ?d1"
      using poll_from_again [of ?pred remote elapsed d limit, OF nf False]
      by (simp only: ev snd_conv)
    have "Suc limit - (elapsed + samplingInterval) < Suc limit - elapsed"
      using False by (simp add: samplingInterval_def)
    from less [OF this, of ?d1]
    have ih: "fst (poll_from ?pred limit remote (elapsed + samplingInterval) ?d1) = timeout"
      and tr: "trace (snd (poll_from ?pred limit remote (elapsed + samplingInterval) ?d1))
                 = trace ?d1 @ replicate (if limit < elapsed + samplingInterval then 1
                                          else (limit - (elapsed + samplingInterval))
                                               div samplingInterval + 2)
                                (Issued (FindElements c))"
      by simp_all
    have "trace (snd (poll_from ?pred limit remote elapsed d))
            = trace d @ replicate (Suc (if limit < elapsed + samplingInterval then 1
                                        else (limit - (elapsed + samplingInterval))
                                             div samplingInterval + 2))
                          (Issued (FindElements c))"
      unfolding again tr by simp
    then have "trace (snd (poll_from ?pred limit remote elapsed d))
            = trace d @ replicate ((limit - elapsed) div samplingInterval + 2)
                          (Issued (FindElements c))"
      by (simp only: samples_step [OF False])
    with ih False show ?thesis
      by (simp only: again if_False simp_thms)
  qed
qed


lemma u_findOne_step:
  assumes "matching (document (u_driver d)) selector = t # ts"
  shows "\<exists>d' new. u_findOne selector d = (Inr t, d')
           \<and> u_driver d' = u_driver d \<and> u_patience d' = u_patience d
           \<and> trace d' = trace d @ new
           \<and> commands new = [FindElements selector, GetAttribute t ''tabindex'']"
proof -
  let ?new = "[Issued (FindElements selector)]
              @ (if ts = [] then []
                 else [Emitted ''warning''
                         (AriaDriverError2 ''ARIADRIVER-AMBIGUOUS-REFERENCE'' [selector])])
              @ [Issued (GetAttribute t ''tabindex'')]
              @ (if greater0 (parseInt10 (attribute (document (u_driver d)) t ''tabindex''))
                 then [Emitted ''warning''
                         (POOR_SEMANTICS (attribute (document (u_driver d)) t ''tabindex''))]
                 else [])"
  have "u_findOne selector d = (Inr t, d\<lparr>trace := trace d @ ?new\<rparr>)"
    by (simp add: u_findOne_found [OF assms])
  moreover have "commands ?new = [FindElements selector, GetAttribute t ''tabindex'']"
    by simp
  ultimately show ?thesis
    by (intro exI [of _ "d\<lparr>trace := trace d @ ?new\<rparr>"] exI [of _ ?new]) simp
qed

lemma use_step:
  assumes m: "matching (document (u_driver d)) selector = t # ts"
    and h: "attribute (document (u_driver d)) t ''aria-hidden'' \<noteq> Some ''true''"
    and f: "focusable (document (u_driver d)) t \<or> activeElement (document (u_driver d)) = Some t"
  shows "\<exists>d' new. use selector d = (Inr (), d')
           \<and> u_patience d' = u_patience d
           \<and> trace d' = trace d @ new
           \<and> commands new = [FindElements selector, GetAttribute t ''tabindex'',
                              GetAttribute t ''aria-hidden'', ExecuteScript t,
                              SendKeys t ENTER]"
proof -
  from u_findOne_step [OF m]
  obtain d1 n1 where r: "u_findOne selector d = (Inr t, d1)"
    and dr: "u_driver d1 = u_driver d" and pa: "u_patience d1 = u_patience d"
    and tr: "trace d1 = trace d @ n1"
    and c1: "commands n1 = [FindElements selector, GetAttribute t ''tabindex'']"
    by blast
  have h1: "attribute (document (u_driver d1)) t ''aria-hidden'' \<noteq> Some ''true''"
    unfolding dr by (rule h)
  have f1: "focusable (document (u_driver d1)) t
            \<or> activeElement (document (u_driver d1)) = Some t"
    unfolding dr by (rule f)
  let ?n2 = "[Issued (GetAttribute t ''aria-hidden''), Issued (ExecuteScript t),
              Issued (SendKeys t ENTER)]"
  let ?d2 = "d1\<lparr>trace := trace d1 @ ?n2,
                 u_driver := (u_driver d1)\<lparr>document :=
                               (document (u_driver d1))\<lparr>activeElement := Some t\<rparr>\<rparr>\<rparr>"
  have "use selector d = (Inr (), ?d2)"
    by (simp add: use_def r u_use_accepted [OF h1 f1])
  moreover have "u_patience ?d2 = u_patience d" by (simp add: pa)
  moreover have "trace ?d2 = trace d @ (n1 @ ?n2)" by (simp add: tr)
  moreover have "commands (n1 @ ?n2)
                   = [FindElements selector, GetAttribute t ''tabindex'',
                      GetAttribute t ''aria-hidden'', ExecuteScript t, SendKeys t ENTER]"
    by (simp add: commands_append c1)
  ultimately show ?thesis by blast
qed

lemma commands_replicate: "commands (replicate k (Issued c)) = replicate k c"
  by (induction k) simp_all

lemma interact_times_out:
  assumes m: "matching (document (u_driver d)) selector = trigger # others"
    and a: "attribute (document (u_driver d)) trigger (fst (markupRule kind)) = Some token"
    and nf: "token \<noteq> ''false''" and acc: "token \<in> set (snd (markupRule kind))"
    and h: "attribute (document (u_driver d)) trigger ''aria-hidden'' \<noteq> Some ''true''"
    and f: "focusable (document (u_driver d)) trigger
            \<or> activeElement (document (u_driver d)) = Some trigger"
    and never: "\<And>t. \<not> successPredicate kind
                          (length (matching (document (u_driver d)) (container kind)))
                          (length (matching (remote t) (container kind)))"
  shows "fst (interact kind selector remote d)
           = Inl (AriaDriverError2 ''ARIADRIVER-TIMEOUT'' [selector])
       \<and> commands (during d (snd (interact kind selector remote d)))
           = [FindElements selector, GetAttribute trigger ''tabindex'',
              GetAttribute trigger (fst (markupRule kind)),
              FindElements (container kind),
              FindElements selector, GetAttribute trigger ''tabindex'',
              GetAttribute trigger ''aria-hidden'', ExecuteScript trigger,
              SendKeys trigger ENTER]
             @ replicate (patienceMs d div samplingInterval + 2)
                 (FindElements (container kind))"
proof -
  define baseline where "baseline = length (matching (document (u_driver d)) (container kind))"
  define pred where "pred = (\<lambda>d. let (now, d) = count (container kind) d
                                 in (successPredicate kind baseline now, d))"
  from u_findOne_step [OF m]
  obtain d1 n1 where r1: "u_findOne selector d = (Inr trigger, d1)"
    and dr1: "u_driver d1 = u_driver d" and pa1: "u_patience d1 = u_patience d"
    and tr1: "trace d1 = trace d @ n1"
    and c1: "commands n1 = [FindElements selector, GetAttribute trigger ''tabindex'']"
    by blast
  define d2 where
    "d2 = d1\<lparr>trace := trace d1 @ [Issued (GetAttribute trigger (fst (markupRule kind)))]\<rparr>"
  define d3 where "d3 = d2\<lparr>trace := trace d2 @ [Issued (FindElements (container kind))]\<rparr>"
  have a1: "attribute (document (u_driver d1)) trigger (fst (markupRule kind)) = Some token"
    unfolding dr1 by (rule a)
  have r2: "validate kind selector trigger d1 = (Inr (), d2)"
    unfolding d2_def by (rule validate_accepts [OF a1 nf acc])
  have dr2: "u_driver d2 = u_driver d" by (simp add: d2_def dr1)
  have r3: "count (container kind) d2 = (baseline, d3)"
    by (simp add: count_step dr2 d3_def baseline_def)
  have dr3: "u_driver d3 = u_driver d" by (simp add: d3_def dr2)
  have pa3: "u_patience d3 = u_patience d" by (simp add: d3_def d2_def pa1)
  have tr3: "trace d3 = trace d @ (n1 @ [Issued (GetAttribute trigger (fst (markupRule kind))),
                                         Issued (FindElements (container kind))])"
    by (simp add: d3_def d2_def tr1)
  have m3: "matching (document (u_driver d3)) selector = trigger # others"
    unfolding dr3 by (rule m)
  have h3: "attribute (document (u_driver d3)) trigger ''aria-hidden'' \<noteq> Some ''true''"
    unfolding dr3 by (rule h)
  have f3: "focusable (document (u_driver d3)) trigger
            \<or> activeElement (document (u_driver d3)) = Some trigger"
    unfolding dr3 by (rule f)
  from use_step [OF m3 h3 f3]
  obtain d4 n4 where r4: "use selector d3 = (Inr (), d4)"
    and pa4: "u_patience d4 = u_patience d3"
    and tr4: "trace d4 = trace d3 @ n4"
    and c4: "commands n4 = [FindElements selector, GetAttribute trigger ''tabindex'',
                            GetAttribute trigger ''aria-hidden'', ExecuteScript trigger,
                            SendKeys trigger ENTER]"
    by blast
  have lim: "patienceMs d4 = patienceMs d"
    by (simp add: patienceMs_def patience_def pa4 pa3)
  have never': "\<And>t. \<not> successPredicate kind baseline (length (matching (remote t) (container kind)))"
    unfolding baseline_def by (rule never)
  note p = poll_from_never [of "successPredicate kind baseline" remote "container kind"
                              "patienceMs d" 0 d4, OF never', folded pred_def]
  obtain o5 d5 where r5: "poll_from pred (patienceMs d) remote 0 d4 = (o5, d5)"
    by (cases "poll_from pred (patienceMs d) remote 0 d4")
  from p have o5: "o5 = timeout"
    and tr5: "trace d5 = trace d4 @ replicate (patienceMs d div samplingInterval + 2)
                                     (Issued (FindElements (container kind)))"
    by (simp_all add: r5)
  have "interact kind selector remote d
          = (case poll pred (patienceMs d4) remote d4 of
               (success, d) \<Rightarrow> (Inr (), d)
             | (timeout, d) \<Rightarrow>
                 (Inl (AriaDriverError2 ''ARIADRIVER-TIMEOUT'' [selector]), d))"
    unfolding interact_def pred_def baseline_def [symmetric]
    by (simp only: r1 r2 r3 r4 prod.case sum.case Let_def)
  then have res: "interact kind selector remote d
               = (Inl (AriaDriverError2 ''ARIADRIVER-TIMEOUT'' [selector]), d5)"
    by (simp only: lim poll_def r5 o5 prod.case outcome.case)
  have "trace d5 = trace d @ (n1 @ [Issued (GetAttribute trigger (fst (markupRule kind))),
                                    Issued (FindElements (container kind))]
                              @ n4
                              @ replicate (patienceMs d div samplingInterval + 2)
                                  (Issued (FindElements (container kind))))"
    by (simp add: tr5 tr4 tr3)
  then have "during d d5 = n1 @ [Issued (GetAttribute trigger (fst (markupRule kind))),
                                 Issued (FindElements (container kind))]
                           @ n4
                           @ replicate (patienceMs d div samplingInterval + 2)
                               (Issued (FindElements (container kind)))"
    by (rule during_append)
  then have "commands (during d d5)
               = [FindElements selector, GetAttribute trigger ''tabindex'',
                  GetAttribute trigger (fst (markupRule kind)),
                  FindElements (container kind),
                  FindElements selector, GetAttribute trigger ''tabindex'',
                  GetAttribute trigger ''aria-hidden'', ExecuteScript trigger,
                  SendKeys trigger ENTER]
                 @ replicate (patienceMs d div samplingInterval + 2)
                     (FindElements (container kind))"
    by (simp add: commands_append c1 c4 commands_replicate)
  then show ?thesis
    by (simp add: res)
qed

text \<open>
  Claim C8, as the code has it. The options the constructor reads are named
  \<^verbatim>\<open>patience\<close> and \<^verbatim>\<open>url\<close>. A \<^verbatim>\<open>patience\<close> that is passed is what the patience accessor
  reports; a \<^verbatim>\<open>url\<close> that is passed is the address of the server the Firefox session is
  built on. Properties named \<^verbatim>\<open>patienceMs\<close> and \<^verbatim>\<open>endpoint\<close> are not read: adding them
  to the options changes nothing in the driver. The \<^verbatim>\<open>patience\<close> that is passed is also
  the duration of the bounded wait of the interaction protocol, for every widget kind:
  on a driver constructed with a patience of \<open>n\<close> milliseconds, when a valid trigger has
  been activated and the expected state never appears, the poller counts the containers
  at 0 ms and then every sampling interval, the last time at the first sample after
  \<open>n\<close> ms (\<open>nat n div samplingInterval + 2\<close> counts in all; a patience below 0 leaves no
  time and counts as 0), and the operation fails with \<^verbatim>\<open>ARIADRIVER-TIMEOUT\<close>. The wait is the one of the protocol modelled from the
  specification, the widget sources being absent.
\<close>

theorem constructor_reads_patience_and_url:
  "(given ''patience'' = Some v \<longrightarrow> patience (constructor (Some given) sid pg) = v)
   \<and> (given ''url'' = Some u \<longrightarrow>
        server (u_driver (constructor (Some given) sid pg)) = u
        \<and> browser (u_driver (constructor (Some given) sid pg)) = ''firefox'')
   \<and> constructor (Some (given(''patienceMs'' \<mapsto> x, ''endpoint'' \<mapsto> y))) sid pg
       = constructor (Some given) sid pg
   \<and> (given ''patience'' = Some (Number n)
      \<and> matching pg selector = trigger # others
      \<and> attribute pg trigger (fst (markupRule kind)) = Some token
      \<and> token \<noteq> ''false'' \<and> token \<in> set (snd (markupRule kind))
      \<and> attribute pg trigger ''aria-hidden'' \<noteq> Some ''true''
      \<and> (focusable pg trigger \<or> activeElement pg = Some trigger)
      \<and> (\<forall>t. \<not> successPredicate kind (length (matching pg (container kind)))
                  (length (matching (remote t) (container kind)))) \<longrightarrow>
      fst (interact kind selector remote (constructor (Some given) sid pg))
        = Inl (AriaDriverError2 ''ARIADRIVER-TIMEOUT'' [selector])
      \<and> commands (trace (snd (interact kind selector remote
                                 (constructor (Some given) sid pg))))
        = [FindElements selector, GetAttribute trigger ''tabindex'',
           GetAttribute trigger (fst (markupRule kind)),
           FindElements (container kind),
           FindElements selector, GetAttribute trigger ''tabindex'',
           GetAttribute trigger ''aria-hidden'', ExecuteScript trigger,
           SendKeys trigger ENTER]
          @ replicate (nat n div samplingInterval + 2) (FindElements (container kind)))"
proof -
  let ?d = "constructor (Some given) sid pg"
  have names: "(given ''patience'' = Some v \<longrightarrow> patience ?d = v)
     \<and> (given ''url'' = Some u \<longrightarrow>
          server (u_driver ?d) = u \<and> browser (u_driver ?d) = ''firefox'')
     \<and> constructor (Some (given(''patienceMs'' \<mapsto> x, ''endpoint'' \<mapsto> y))) sid pg = ?d"
    by (simp add: patience_def constructor_fields)
  have wait: "fst (interact kind selector remote ?d)
        = Inl (AriaDriverError2 ''ARIADRIVER-TIMEOUT'' [selector])
      \<and> commands (trace (snd (interact kind selector remote ?d)))
        = [FindElements selector, GetAttribute trigger ''tabindex'',
           GetAttribute trigger (fst (markupRule kind)),
           FindElements (container kind),
           FindElements selector, GetAttribute trigger ''tabindex'',
           GetAttribute trigger ''aria-hidden'', ExecuteScript trigger,
           SendKeys trigger ENTER]
          @ replicate (nat n div samplingInterval + 2) (FindElements (container kind))"
    if p: "given ''patience'' = Some (Number n)"
      and m: "matching pg selector = trigger # others"
      and a: "attribute pg trigger (fst (markupRule kind)) = Some token"
      and nf: "token \<noteq> ''false''" and acc: "token \<in> set (snd (markupRule kind))"
      and h: "attribute pg trigger ''aria-hidden'' \<noteq> Some ''true''"
      and f: "focusable pg trigger \<or> activeElement pg = Some trigger"
      and never: "\<forall>t. \<not> successPredicate kind (length (matching pg (container kind)))
                         (length (matching (remote t) (container kind)))"
  proof -
    have doc: "document (u_driver ?d) = pg" and tr: "trace ?d = []"
      by (simp_all add: constructor_fields)
    have lim: "patienceMs ?d = nat n"
      using p by (simp add: patienceMs_def patience_def constructor_fields)
    have never': "\<And>t. \<not> successPredicate kind
                           (length (matching (document (u_driver ?d)) (container kind)))
                           (length (matching (remote t) (container kind)))"
      unfolding doc using never by blast
    note t = interact_times_out [of ?d selector trigger others kind token remote,
                                 unfolded doc, OF m a nf acc h f never' [unfolded doc]]
    have "during ?d (snd (interact kind selector remote ?d))
            = trace (snd (interact kind selector remote ?d))"
      by (simp add: during_def tr)
    with t show ?thesis
      by (simp only: lim)
  qed
  from names wait show ?thesis
    by blast
qed

theorem constructor_reads_patience_and_url_witness:
  "[''patience'' \<mapsto> Number 250, ''url'' \<mapsto> String ''http://localhost:4444''] ''patience''
     = Some (Number 250)
   \<and> patience (constructor
        (Some [''patience'' \<mapsto> Number 250, ''url'' \<mapsto> String ''http://localhost:4444''])
        ''session'' fixture) = Number 250
   \<and> [''patience'' \<mapsto> Number 250, ''url'' \<mapsto> String ''http://localhost:4444''] ''url''
     = Some (String ''http://localhost:4444'')
   \<and> server (u_driver (constructor
        (Some [''patience'' \<mapsto> Number 250, ''url'' \<mapsto> String ''http://localhost:4444''])
        ''session'' fixture)) = String ''http://localhost:4444''
   \<and> matching fixture ''#menu'' = [17]
   \<and> attribute fixture 17 (fst (markupRule popup)) = Some ''menu''
   \<and> ''menu'' \<in> set (snd (markupRule popup))
   \<and> attribute fixture 17 ''aria-hidden'' \<noteq> Some ''true''
   \<and> focusable fixture 17
   \<and> (\<forall>t. \<not> successPredicate popup (length (matching fixture (container popup)))
               (length (matching fixture (container popup))))
   \<and> fst (interact popup ''#menu'' (\<lambda>t. fixture) (constructor
        (Some [''patience'' \<mapsto> Number 250, ''url'' \<mapsto> String ''http://localhost:4444''])
        ''session'' fixture))
       = Inl (AriaDriverError2 ''ARIADRIVER-TIMEOUT'' [''#menu''])
   \<and> commands (trace (snd (interact popup ''#menu'' (\<lambda>t. fixture) (constructor
        (Some [''patience'' \<mapsto> Number 250, ''url'' \<mapsto> String ''http://localhost:4444''])
        ''session'' fixture))))
       = [FindElements ''#menu'', GetAttribute 17 ''tabindex'',
          GetAttribute 17 (fst (markupRule popup)),
          FindElements (container popup),
          FindElements ''#menu'', GetAttribute 17 ''tabindex'',
          GetAttribute 17 ''aria-hidden'', ExecuteScript 17, SendKeys 17 ENTER]
         @ replicate 27 (FindElements (container popup))"
proof -
  let ?given = "[''patience'' \<mapsto> Number 250, ''url'' \<mapsto> String ''http://localhost:4444'']"
  have h1: "?given ''patience'' = Some (Number 250)"
    and h2: "?given ''url'' = Some (String ''http://localhost:4444'')"
    by simp_all
  have m: "matching fixture ''#menu'' = [17]"
    and a: "attribute fixture 17 (fst (markupRule popup)) = Some ''menu''"
    and nf: "''menu'' \<noteq> ''false''"
    and acc: "''menu'' \<in> set (snd (markupRule popup))"
    and h: "attribute fixture 17 ''aria-hidden'' \<noteq> Some ''true''"
    and f: "focusable fixture 17"
    by (simp_all add: matching_fixture attribute_fixture focus_fixture popup_def)
  have never: "\<forall>t. \<not> successPredicate popup (length (matching fixture (container popup)))
                       (length (matching fixture (container popup)))"
    by (simp add: popup_def)
  from f have f': "focusable fixture 17 \<or> activeElement fixture = Some 17" ..
  have n: "nat 250 div samplingInterval + 2 = 27"
    by (simp add: samplingInterval_def)
  note p = constructor_reads_patience_and_url
             [of ?given "Number 250" "''session''" fixture, THEN conjunct1, THEN mp, OF h1]
  note s = constructor_reads_patience_and_url
             [of ?given _ "''session''" fixture "String ''http://localhost:4444''",
              THEN conjunct2, THEN conjunct1, THEN mp, OF h2, THEN conjunct1]
  note w = constructor_reads_patience_and_url
             [of ?given _ "''session''" fixture _ _ _ 250 "''#menu''" 17 "[]" popup
                 "''menu''" "\<lambda>t. fixture",
              THEN conjunct2, THEN conjunct2, THEN conjunct2, THEN mp,
              OF conjI [OF h1 conjI [OF m conjI [OF a conjI [OF nf conjI [OF acc
                 conjI [OF h conjI [OF f' never]]]]]]],
              unfolded n]
  show ?thesis
    by (intro conjI h1 h2 p s m a acc h f never w [THEN conjunct1] w [THEN conjunct2])
qed

text \<open>
  Claim C8 as stated fails: constructed with
  \<^verbatim>\<open>{ patienceMs: 250, endpoint: 'http://localhost:4444' }\<close>, the driver has the default
  patience of 1000 and an undefined server address.
\<close>

theorem patienceMs_endpoint_counterexample:
  "patience (constructor
      (Some [''patienceMs'' \<mapsto> Number 250, ''endpoint'' \<mapsto> String ''http://localhost:4444''])
      ''session'' fixture) = Number 1000
   \<and> server (u_driver (constructor
      (Some [''patienceMs'' \<mapsto> Number 250, ''endpoint'' \<mapsto> String ''http://localhost:4444''])
      ''session'' fixture)) = Undefined"
  by (simp add: patience_def constructor_fields)

end
